theory Spec2Isabelle
  imports Complex_Main "HOL-Library.AList"
begin

section \<open>The dashboard client of static/js/app.js\<close>

text \<open>
  The script is one \<^verbatim>\<open>DOMContentLoaded\<close> handler that closes over the browser's
  \<^verbatim>\<open>localStorage\<close>, \<^verbatim>\<open>window.location\<close>, the DOM, \<^verbatim>\<open>fetch\<close>, the console, the
  dialogs and the timers. Here that ambient state is one record, \<open>world\<close>, which every
  function takes and returns; what the outside decides (the server's answer, how long
  it takes, what the user clicks) is the record \<open>env\<close>; what the JavaScript engine
  computes by built-ins (\<^verbatim>\<open>JSON.parse\<close>, \<^verbatim>\<open>JSON.stringify\<close>, number formatting, ...)
  is the record \<open>platform\<close>. An \<^verbatim>\<open>async\<close> function becomes a function to
  \<open>(error + 'a) \<times> world\<close>: \<open>Inr\<close> is the resolved promise, \<open>Inl\<close> the rejected one,
  and the world is the state the call leaves behind in either case. A call is taken
  as one step: other callbacks that the event loop may run while the call awaits the
  network are not interleaved with it. \<^verbatim>\<open>localStorage.setItem\<close> is taken to succeed
  (no quota error).
\<close>

subsection \<open>JSON values\<close>

text \<open>
  The values \<^verbatim>\<open>JSON.parse\<close> and \<^verbatim>\<open>response.json()\<close> produce. Numbers are the finite
  ones, taken exactly. An object is the list of its own properties.
\<close>

datatype json =
    JNull
  | JBool bool
  | JNum rat
  | JStr string
  | JArr "json list"
  | JObj "(string \<times> json) list"

text \<open>What a \<^verbatim>\<open>throw\<close> or a rejected promise carries.\<close>

datatype error =
    Error string      \<comment> \<open>\<^verbatim>\<open>new Error(message)\<close>\<close>
  | SyntaxError       \<comment> \<open>text that is not JSON\<close>
  | TypeError         \<comment> \<open>a property of null or undefined, a call of a non-function\<close>
  | NetworkError      \<comment> \<open>\<^verbatim>\<open>fetch\<close> rejects: no response was received\<close>

text \<open>The result of JavaScript's \<^verbatim>\<open>ToNumber\<close>.\<close>

datatype jsnumber = Num rat | NaN | PosInfinity | NegInfinity

text \<open>
  The built-ins the script calls and does not define. \<open>ObjectToPrimitive\<close> is the
  string an array or an object converts to (it throws when the object shadows
  \<^verbatim>\<open>toString\<close> and \<^verbatim>\<open>valueOf\<close> with non-functions). \<open>double\<close> is the rounding
  of an exact result to the nearest IEEE double, as every arithmetic operation of the
  engine ends with.
\<close>

record platform =
  JSON_parse :: "string \<Rightarrow> json option"
  JSON_stringify :: "json \<Rightarrow> string"
  NumberToString :: "rat \<Rightarrow> string"
  ObjectToPrimitive :: "json \<Rightarrow> error + string"
  StringToNumber :: "string \<Rightarrow> jsnumber"
  double :: "rat \<Rightarrow> rat"
  toLowerCase :: "string \<Rightarrow> string"
  toFixed :: "rat \<Rightarrow> nat \<Rightarrow> string"
  DateToLocaleString :: "json option \<Rightarrow> error + string"

text \<open>\<^verbatim>\<open>if (v)\<close>, \<^verbatim>\<open>!v\<close>, \<^verbatim>\<open>v || d\<close> on a JSON value.\<close>

fun truthy :: "json \<Rightarrow> bool" where
  "truthy JNull = False"
| "truthy (JBool b) = b"
| "truthy (JNum n) = (n \<noteq> 0)"
| "truthy (JStr s) = (s \<noteq> [])"
| "truthy (JArr xs) = True"
| "truthy (JObj kvs) = True"

text \<open>
  \<^verbatim>\<open>v.k\<close> for the property names the script reads (\<^verbatim>\<open>timestamp\<close>, \<^verbatim>\<open>data\<close>,
  \<^verbatim>\<open>detail\<close>, \<^verbatim>\<open>status\<close>, ...), none of which a prototype provides: \<open>None\<close> is
  \<^verbatim>\<open>undefined\<close>. Reading a property of \<^verbatim>\<open>null\<close> throws, which the callers check
  before they use \<open>get_prop\<close>.
\<close>

fun get_prop :: "json \<Rightarrow> string \<Rightarrow> json option" where
  "get_prop (JObj kvs) k = map_of kvs k"
| "get_prop _ k = None"

text \<open>A template literal's \<^verbatim>\<open>${v}\<close>: JavaScript's \<^verbatim>\<open>ToString\<close>.\<close>

fun ToString :: "platform \<Rightarrow> json option \<Rightarrow> error + string" where
  "ToString P None = Inr ''undefined''"
| "ToString P (Some JNull) = Inr ''null''"
| "ToString P (Some (JBool b)) = Inr (if b then ''true'' else ''false'')"
| "ToString P (Some (JNum n)) = Inr (NumberToString P n)"
| "ToString P (Some (JStr s)) = Inr s"
| "ToString P (Some (JArr xs)) = ObjectToPrimitive P (JArr xs)"
| "ToString P (Some (JObj kvs)) = ObjectToPrimitive P (JObj kvs)"

text \<open>The operand of a subtraction: JavaScript's \<^verbatim>\<open>ToNumber\<close>.\<close>

fun ToNumber :: "platform \<Rightarrow> json option \<Rightarrow> error + jsnumber" where
  "ToNumber P None = Inr NaN"
| "ToNumber P (Some JNull) = Inr (Num 0)"
| "ToNumber P (Some (JBool b)) = Inr (Num (if b then 1 else 0))"
| "ToNumber P (Some (JNum n)) = Inr (Num n)"
| "ToNumber P (Some (JStr s)) = Inr (StringToNumber P s)"
| "ToNumber P (Some (JArr xs)) =
     (case ObjectToPrimitive P (JArr xs) of Inl e \<Rightarrow> Inl e | Inr s \<Rightarrow> Inr (StringToNumber P s))"
| "ToNumber P (Some (JObj kvs)) =
     (case ObjectToPrimitive P (JObj kvs) of Inl e \<Rightarrow> Inl e | Inr s \<Rightarrow> Inr (StringToNumber P s))"

subsection \<open>The browser: requests, responses, the page\<close>

text \<open>
  An entity of the server list, \<^verbatim>\<open>{id, name}\<close>, both strings as in the data model
  of the specification.
\<close>

record server =
  server_id :: string
  server_name :: string

record request =
  url :: string
  http_method :: string
  headers :: "(string \<times> string) list"

text \<open>
  A response as the script reads it: \<^verbatim>\<open>response.status\<close>, \<^verbatim>\<open>response.statusText\<close>
  and \<^verbatim>\<open>await response.json()\<close>, which is \<open>None\<close> when the body is not JSON text
  (the promise rejects with a SyntaxError).
\<close>

record response =
  status :: nat
  statusText :: string
  json_body :: "json option"

text \<open>\<^verbatim>\<open>response.ok\<close>: the status is in the range 200 to 299.\<close>

definition ok :: "response \<Rightarrow> bool" where
  "ok r = (200 \<le> status r \<and> status r \<le> 299)"

datatype reply = Failed | Reply response

text \<open>The second argument of \<^verbatim>\<open>fetchWithAuth\<close>: \<^verbatim>\<open>{}\<close> or \<^verbatim>\<open>{ method: 'POST' }\<close>.\<close>

record options =
  opt_method :: "string option"
  opt_headers :: "(string \<times> string) list"

text \<open>
  What the outside decides: the answer to a request and the milliseconds it takes,
  the user's answer to a \<^verbatim>\<open>confirm\<close> dialog and the milliseconds a dialog stays open.
\<close>

record env =
  net :: "request \<Rightarrow> reply"
  latency :: "request \<Rightarrow> nat"
  confirm :: "string \<Rightarrow> bool"
  dwell :: "string \<Rightarrow> nat"

text \<open>
  A DOM element of a server card, as far as the script writes it: \<^verbatim>\<open>textContent\<close>,
  the class tokens, the string assigned to \<^verbatim>\<open>style.width\<close> and the texts of the
  \<^verbatim>\<open>li\<close> children. The elements of a card are created by \<^verbatim>\<open>createServerCard\<close>
  before the first call for the server, so \<^verbatim>\<open>getElementById\<close> is total here.
\<close>

record element =
  textContent :: string
  className :: "string list"
  width :: string
  items :: "string list"

text \<open>
  The calls a timer callback of the script makes: \<open>UpdateDashboard srv force\<close> is
  \<^verbatim>\<open>updateDashboardForServer(srv, force)\<close>, \<open>UpdateActionLogs srv\<close> is
  \<^verbatim>\<open>updateActionLogsForServer(srv)\<close>. A callback is the list of the calls it starts,
  in order, none of them awaited.
\<close>

datatype call = UpdateDashboard server bool | UpdateActionLogs server

text \<open>A pending \<^verbatim>\<open>setTimeout\<close>: the clock value before which it does not run.\<close>

record timer =
  due :: int
  callback :: "call list"

record world =
  localStorage :: "string \<rightharpoonup> string"
  href :: string
  document :: "string \<Rightarrow> element"
  network :: "request list"     \<comment> \<open>every \<^verbatim>\<open>fetch\<close> issued so far, oldest first\<close>
  console :: "(string \<times> error) list"
  alerts :: "string list"
  timers :: "timer list"
  clock :: int                  \<comment> \<open>\<^verbatim>\<open>new Date().getTime()\<close>, in milliseconds\<close>

subsection \<open>fetchWithAuth\<close>

text \<open>
  \<^verbatim>\<open>await fetch(url, { ...options, headers })\<close>: the request is logged, the clock
  moves by the latency, and the promise resolves with the response or rejects.
\<close>

definition fetch :: "env \<Rightarrow> request \<Rightarrow> world \<Rightarrow> (error + response) \<times> world" where
  "fetch E req w =
     (case net E req of Failed \<Rightarrow> Inl NetworkError | Reply r \<Rightarrow> Inr r,
      w\<lparr>network := network w @ [req], clock := clock w + int (latency E req)\<rparr>)"

definition login_page :: string where
  "login_page = ''/static/login.html''"

definition authorized_request :: "string \<Rightarrow> options \<Rightarrow> string \<Rightarrow> request" where
  "authorized_request u opts currentToken =
     \<lparr>url = u,
      http_method = (case opt_method opts of None \<Rightarrow> ''GET'' | Some m \<Rightarrow> m),
      headers = AList.update ''Authorization'' (''Bearer '' @ currentToken) (opt_headers opts)\<rparr>"

definition fetchWithAuth :: "env \<Rightarrow> string \<Rightarrow> options \<Rightarrow> world \<Rightarrow> (error + response) \<times> world" where
  "fetchWithAuth E u opts w =
     (case localStorage w ''accessToken'' of
        None \<Rightarrow> (Inl (Error ''No token found, redirecting to login.''), w\<lparr>href := login_page\<rparr>)
      | Some currentToken \<Rightarrow>
          if currentToken = [] then
            (Inl (Error ''No token found, redirecting to login.''), w\<lparr>href := login_page\<rparr>)
          else
            (case fetch E (authorized_request u opts currentToken) w of
               (Inl e, w1) \<Rightarrow> (Inl e, w1)
             | (Inr response, w1) \<Rightarrow>
                 if status response = 401 then
                   (Inl (Error ''Unauthorized''),
                    w1\<lparr>localStorage := (localStorage w1)(''accessToken'' := None),
                       href := login_page\<rparr>)
                 else (Inr response, w1)))"

subsection \<open>renderDashboardData\<close>

definition set_textContent :: "string \<Rightarrow> string \<Rightarrow> world \<Rightarrow> world" where
  "set_textContent i s w = w\<lparr>document := (document w)(i := (document w i)\<lparr>textContent := s\<rparr>)\<rparr>"

definition set_className :: "string \<Rightarrow> string list \<Rightarrow> world \<Rightarrow> world" where
  "set_className i cs w = w\<lparr>document := (document w)(i := (document w i)\<lparr>className := cs\<rparr>)\<rparr>"

definition classList_add :: "string \<Rightarrow> string \<Rightarrow> world \<Rightarrow> world" where
  "classList_add i c w =
     w\<lparr>document := (document w)(i := (document w i)\<lparr>className := className (document w i) @ [c]\<rparr>)\<rparr>"

definition set_width :: "string \<Rightarrow> string \<Rightarrow> world \<Rightarrow> world" where
  "set_width i s w = w\<lparr>document := (document w)(i := (document w i)\<lparr>width := s\<rparr>)\<rparr>"

definition set_items :: "string \<Rightarrow> string list \<Rightarrow> world \<Rightarrow> world" where
  "set_items i xs w = w\<lparr>document := (document w)(i := (document w i)\<lparr>items := xs\<rparr>)\<rparr>"

definition appendChild :: "string \<Rightarrow> string \<Rightarrow> world \<Rightarrow> world" where
  "appendChild i x w =
     w\<lparr>document := (document w)(i := (document w i)\<lparr>items := items (document w i) @ [x]\<rparr>)\<rparr>"

text \<open>
  The value assigned to \<^verbatim>\<open>textContent\<close>: \<^verbatim>\<open>null\<close> and \<^verbatim>\<open>undefined\<close> give the empty
  string, anything else its \<^verbatim>\<open>ToString\<close>.
\<close>

fun DOMString :: "platform \<Rightarrow> json option \<Rightarrow> error + string" where
  "DOMString P None = Inr []"
| "DOMString P (Some JNull) = Inr []"
| "DOMString P (Some v) = ToString P (Some v)"

text \<open>The receiver of \<^verbatim>\<open>.toLowerCase()\<close> must be a string, that of \<^verbatim>\<open>.toFixed(2)\<close> a number.\<close>

fun as_string :: "json option \<Rightarrow> string option" where
  "as_string (Some (JStr s)) = Some s"
| "as_string _ = None"

fun as_number :: "json option \<Rightarrow> rat option" where
  "as_number (Some (JNum n)) = Some n"
| "as_number _ = None"

text \<open>\<^verbatim>\<open>data.k\<close> where \<open>data\<close> may be \<^verbatim>\<open>undefined\<close> or \<^verbatim>\<open>null\<close>: then the read throws.\<close>

fun is_nullish :: "json option \<Rightarrow> bool" where
  "is_nullish None = True"
| "is_nullish (Some JNull) = True"
| "is_nullish (Some _) = False"

definition status_class :: "platform \<Rightarrow> string \<Rightarrow> string" where
  "status_class P s =
     (if toLowerCase P s = ''running'' then ''running''
      else if toLowerCase P s = ''terminated'' then ''terminated''
      else ''loading'')"

definition renderDashboardData :: "platform \<Rightarrow> server \<Rightarrow> json option \<Rightarrow> world \<Rightarrow> (error + unit) \<times> world" where
  "renderDashboardData P srv data w =
     (if is_nullish data then (Inl TypeError, w)
      else
        (case DOMString P (get_prop (the data) ''instance_name'') of
           Inl e \<Rightarrow> (Inl e, w)
         | Inr nm \<Rightarrow>
             let w1 = set_textContent (''vm-name-'' @ server_id srv) nm w;
                 statusBadge = ''vm-status-'' @ server_id srv
             in
             (case DOMString P (get_prop (the data) ''status'') of
                Inl e \<Rightarrow> (Inl e, w1)
              | Inr st \<Rightarrow>
                  let w2 = set_className statusBadge [''status-badge'']
                             (set_textContent statusBadge st w1)
                  in
                  (case as_string (get_prop (the data) ''status'') of
                     None \<Rightarrow> (Inl TypeError, w2)
                   | Some s \<Rightarrow>
                       let w3 = classList_add statusBadge (status_class P s) w2 in
                       (case ToString P (get_prop (the data) ''traffic_usage_percent'') of
                          Inl e \<Rightarrow> (Inl e, w3)
                        | Inr pct \<Rightarrow>
                            let w4 = set_width (''progress-bar-'' @ server_id srv) (pct @ ''%'') w3 in
                            (case as_number (get_prop (the data) ''current_traffic_gb'') of
                               None \<Rightarrow> (Inl TypeError, w4)
                             | Some gb \<Rightarrow>
                                 (case ToString P (get_prop (the data) ''traffic_threshold_gb'') of
                                    Inl e \<Rightarrow> (Inl e, w4)
                                  | Inr thr \<Rightarrow>
                                      (Inr (),
                                       set_textContent (''traffic-details-'' @ server_id srv)
                                         (toFixed P gb 2 @ '' GB / '' @ thr @ '' GB ('' @ pct @ ''%)'')
                                         w4))))))))"

subsection \<open>updateDashboardForServer\<close>

definition cacheKey :: "server \<Rightarrow> string" where
  "cacheKey srv = ''dashboardData-'' @ server_id srv"

text \<open>
  \<^verbatim>\<open>JSON.parse(localStorage.getItem(cacheKey))\<close>. A missing key reads as \<^verbatim>\<open>null\<close>,
  which \<^verbatim>\<open>JSON.parse\<close> turns into the text \<^verbatim>\<open>"null"\<close> and parses to \<^verbatim>\<open>null\<close>.
\<close>

definition read_cache :: "platform \<Rightarrow> server \<Rightarrow> world \<Rightarrow> error + json" where
  "read_cache P srv w =
     (case localStorage w (cacheKey srv) of
        None \<Rightarrow> Inr JNull
      | Some s \<Rightarrow> (case JSON_parse P s of None \<Rightarrow> Inl SyntaxError | Some j \<Rightarrow> Inr j))"

text \<open>
  \<^verbatim>\<open>now - x < 3600000\<close> for the number the operand \<open>x\<close> converts to. The engine
  subtracts doubles and rounds the difference. \<open>now\<close> is an integer of milliseconds
  (below \<open>2^53\<close>); when \<open>x\<close> is an integer too, as every timestamp the script writes
  is, the exact comparison is the engine's: the rounding is monotone and leaves
  \<open>3600000\<close> and every integer up to \<open>2^53\<close> in place. Otherwise the difference is
  rounded first.
\<close>

fun age_below :: "platform \<Rightarrow> int \<Rightarrow> jsnumber \<Rightarrow> bool" where
  "age_below P now (Num ts) =
     (if ts = of_int \<lfloor>ts\<rfloor> then of_int now - ts < 3600000
      else double P (of_int now - ts) < 3600000)"
| "age_below P now NaN = False"
| "age_below P now PosInfinity = True"
| "age_below P now NegInfinity = False"

text \<open>
  The condition \<^verbatim>\<open>!force && cachedData && (now - cachedData.timestamp < 3600000)\<close>,
  evaluated left to right; only the subtraction can throw.
\<close>

definition cache_hit :: "platform \<Rightarrow> bool \<Rightarrow> json \<Rightarrow> int \<Rightarrow> error + bool" where
  "cache_hit P force cachedData now =
     (if force then Inr False
      else if \<not> truthy cachedData then Inr False
      else (case ToNumber P (get_prop cachedData ''timestamp'') of
              Inl e \<Rightarrow> Inl e
            | Inr ts \<Rightarrow> Inr (age_below P now ts)))"

definition cache_record :: "json \<Rightarrow> int \<Rightarrow> json" where
  "cache_record data now = JObj [(''data'', data), (''timestamp'', JNum (of_int now))]"

definition status_url :: "server \<Rightarrow> string" where
  "status_url srv = ''/api/v1/servers/'' @ server_id srv @ ''/status''"

definition no_options :: options where
  "no_options = \<lparr>opt_method = None, opt_headers = []\<rparr>"

text \<open>The \<^verbatim>\<open>try\<close> block of \<^verbatim>\<open>updateDashboardForServer\<close>.\<close>

definition fetch_and_store :: "platform \<Rightarrow> env \<Rightarrow> server \<Rightarrow> int \<Rightarrow> world \<Rightarrow> (error + unit) \<times> world" where
  "fetch_and_store P E srv now w =
     (case fetchWithAuth E (status_url srv) no_options w of
        (Inl e, w1) \<Rightarrow> (Inl e, w1)
      | (Inr response, w1) \<Rightarrow>
          if \<not> ok response then
            (Inl (Error (''Failed to fetch status: '' @ statusText response)), w1)
          else
            (case json_body response of
               None \<Rightarrow> (Inl SyntaxError, w1)
             | Some data \<Rightarrow>
                 (case renderDashboardData P srv (Some data) w1 of
                    (Inl e, w2) \<Rightarrow> (Inl e, w2)
                  | (Inr u, w2) \<Rightarrow>
                      (Inr (),
                       w2\<lparr>localStorage :=
                            (localStorage w2)(cacheKey srv \<mapsto> JSON_stringify P (cache_record data now))\<rparr>))))"

text \<open>Its \<^verbatim>\<open>catch\<close> block.\<close>

definition show_error :: "server \<Rightarrow> error \<Rightarrow> world \<Rightarrow> world" where
  "show_error srv e w =
     set_textContent (''traffic-details-'' @ server_id srv) ''Error loading data.''
       (w\<lparr>console := console w @ [(''Error updating dashboard for '' @ server_id srv @ '':'', e)]\<rparr>)"

definition updateDashboardForServer :: "platform \<Rightarrow> env \<Rightarrow> server \<Rightarrow> bool \<Rightarrow> world \<Rightarrow> (error + unit) \<times> world" where
  "updateDashboardForServer P E srv force w =
     (case read_cache P srv w of
        Inl e \<Rightarrow> (Inl e, w)
      | Inr cachedData \<Rightarrow>
          let now = clock w in
          (case cache_hit P force cachedData now of
             Inl e \<Rightarrow> (Inl e, w)
           | Inr True \<Rightarrow> renderDashboardData P srv (get_prop cachedData ''data'') w
           | Inr False \<Rightarrow>
               (case fetch_and_store P E srv now w of
                  (Inr u, w') \<Rightarrow> (Inr (), w')
                | (Inl e, w') \<Rightarrow> (Inr (), show_error srv e w'))))"

subsection \<open>updateActionLogsForServer\<close>

definition logs_url :: "server \<Rightarrow> string" where
  "logs_url srv = ''/api/v1/logs/actions?server_id='' @ server_id srv @ ''&limit=10''"

text \<open>\<^verbatim>\<open>logs.length\<close> on a value that is not \<^verbatim>\<open>null\<close>.\<close>

fun length_prop :: "json \<Rightarrow> json option" where
  "length_prop (JArr xs) = Some (JNum (of_nat (length xs)))"
| "length_prop (JStr s) = Some (JNum (of_nat (length s)))"
| "length_prop (JObj kvs) = map_of kvs ''length''"
| "length_prop _ = None"

text \<open>\<^verbatim>\<open>log.reason || ''\<close>.\<close>

fun or_default :: "json option \<Rightarrow> string \<Rightarrow> json option" where
  "or_default None d = Some (JStr d)"
| "or_default (Some v) d = (if truthy v then Some v else Some (JStr d))"

text \<open>The text of one \<^verbatim>\<open>li\<close>, for one element of the array.\<close>

definition log_line :: "platform \<Rightarrow> json \<Rightarrow> error + string" where
  "log_line P entry =
     (if entry = JNull then Inl TypeError
      else
        (case DateToLocaleString P (get_prop entry ''timestamp'') of
           Inl e \<Rightarrow> Inl e
         | Inr ts \<Rightarrow>
             (case ToString P (get_prop entry ''action_type'') of
                Inl e \<Rightarrow> Inl e
              | Inr act \<Rightarrow>
                  (case ToString P (or_default (get_prop entry ''reason'') []) of
                     Inl e \<Rightarrow> Inl e
                   | Inr rsn \<Rightarrow> Inr (''['' @ ts @ ''] '' @ act @ '': '' @ rsn)))))"

text \<open>\<^verbatim>\<open>logs.forEach(...)\<close>: the children appended before a throw stay.\<close>

fun append_logs :: "platform \<Rightarrow> string \<Rightarrow> json list \<Rightarrow> world \<Rightarrow> (error + unit) \<times> world" where
  "append_logs P i [] w = (Inr (), w)"
| "append_logs P i (entry # rest) w =
     (case log_line P entry of
        Inl e \<Rightarrow> (Inl e, w)
      | Inr t \<Rightarrow> append_logs P i rest (appendChild i t w))"

fun as_array :: "json \<Rightarrow> json list option" where
  "as_array (JArr xs) = Some xs"
| "as_array _ = None"

text \<open>
  The \<^verbatim>\<open>try\<close> block of \<^verbatim>\<open>updateActionLogsForServer\<close>, in two parts: what it does
  with the response (lines 199 to 212), and the request before it (line 198).
\<close>

definition show_logs :: "platform \<Rightarrow> server \<Rightarrow> response \<Rightarrow> world \<Rightarrow> (error + unit) \<times> world" where
  "show_logs P srv response w1 =
     (if \<not> ok response then (Inl (Error ''Failed to fetch logs''), w1)
      else
        (case json_body response of
           None \<Rightarrow> (Inl SyntaxError, w1)
         | Some logs \<Rightarrow>
             let logsList = ''action-logs-'' @ server_id srv;
                 w2 = set_items logsList [] w1
             in
             if logs = JNull then (Inl TypeError, w2)
             else if length_prop logs = Some (JNum 0) then
               (Inr (), set_items logsList [''No actions logged for this server.''] w2)
             else
               (case as_array logs of
                  None \<Rightarrow> (Inl TypeError, w2)
                | Some xs \<Rightarrow> append_logs P logsList xs w2)))"

definition fetch_logs :: "platform \<Rightarrow> env \<Rightarrow> server \<Rightarrow> world \<Rightarrow> (error + unit) \<times> world" where
  "fetch_logs P E srv w =
     (case fetchWithAuth E (logs_url srv) no_options w of
        (Inl e, w1) \<Rightarrow> (Inl e, w1)
      | (Inr response, w1) \<Rightarrow> show_logs P srv response w1)"

definition updateActionLogsForServer :: "platform \<Rightarrow> env \<Rightarrow> server \<Rightarrow> world \<Rightarrow> (error + unit) \<times> world" where
  "updateActionLogsForServer P E srv w =
     (case fetch_logs P E srv w of
        (Inr u, w') \<Rightarrow> (Inr (), w')
      | (Inl e, w') \<Rightarrow>
          (Inr (),
           w'\<lparr>console := console w' @ [(''Error updating action logs for '' @ server_id srv @ '':'', e)]\<rparr>))"

subsection \<open>handleVmAction\<close>

text \<open>\<^verbatim>\<open>alert(message)\<close> blocks until the user closes the dialog.\<close>

definition alert :: "env \<Rightarrow> string \<Rightarrow> world \<Rightarrow> world" where
  "alert E msg w = w\<lparr>alerts := alerts w @ [msg], clock := clock w + int (dwell E msg)\<rparr>"

text \<open>\<^verbatim>\<open>setTimeout(callback, delay)\<close>: the callback runs once, not before \<open>delay\<close> ms have passed.\<close>

definition setTimeout :: "call list \<Rightarrow> nat \<Rightarrow> world \<Rightarrow> world" where
  "setTimeout cb delay w = w\<lparr>timers := timers w @ [\<lparr>due = clock w + int delay, callback = cb\<rparr>]\<rparr>"

definition action_url :: "server \<Rightarrow> string \<Rightarrow> string" where
  "action_url srv action = ''/api/v1/servers/'' @ server_id srv @ ''/'' @ action"

definition post_options :: options where
  "post_options = \<lparr>opt_method = Some ''POST'', opt_headers = []\<rparr>"

definition confirm_message :: "server \<Rightarrow> string \<Rightarrow> string" where
  "confirm_message srv action =
     ''Are you sure you want to '' @ action @ '' the VM for server '' @ server_name srv @ ''?''"

text \<open>The \<^verbatim>\<open>try\<close> block of \<^verbatim>\<open>handleVmAction\<close>.\<close>

definition invoke_action :: "platform \<Rightarrow> env \<Rightarrow> server \<Rightarrow> string \<Rightarrow> world \<Rightarrow> (error + unit) \<times> world" where
  "invoke_action P E srv action w =
     (case fetchWithAuth E (action_url srv action) post_options w of
        (Inl e, w1) \<Rightarrow> (Inl e, w1)
      | (Inr response, w1) \<Rightarrow>
          if ok response then
            (Inr (),
             setTimeout [UpdateDashboard srv True, UpdateActionLogs srv] 3000
               (alert E (''VM '' @ action @ '' initiated for server '' @ server_name srv @ ''.'') w1))
          else
            (case json_body response of
               None \<Rightarrow> (Inl SyntaxError, w1)
             | Some err \<Rightarrow>
                 if err = JNull then (Inl TypeError, w1)
                 else
                   (case ToString P (or_default (get_prop err ''detail'') ''Failed to perform action'') of
                      Inl e \<Rightarrow> (Inl e, w1)
                    | Inr msg \<Rightarrow> (Inr (), alert E (''Error: '' @ msg) w1))))"

definition handleVmAction :: "platform \<Rightarrow> env \<Rightarrow> server \<Rightarrow> string \<Rightarrow> world \<Rightarrow> (error + unit) \<times> world" where
  "handleVmAction P E srv action w =
     (let w0 = w\<lparr>clock := clock w + int (dwell E (confirm_message srv action))\<rparr> in
      if \<not> confirm E (confirm_message srv action) then (Inr (), w0)
      else
        (case invoke_action P E srv action w0 of
           (Inr u, w') \<Rightarrow> (Inr (), w')
         | (Inl e, w') \<Rightarrow>
             (Inr (),
              w'\<lparr>console := console w' @
                   [(''Error during '' @ action @ '' for '' @ server_id srv @ '':'', e)]\<rparr>)))"

subsection \<open>A concrete page, server and platform\<close>

text \<open>
  The scenario of the specification: one server, an empty cache, a stored token, and a
  backend that answers the status request with the data of \<open>vm-1\<close>. The platform
  is an \<^verbatim>\<open>en-US\<close> browser restricted to the values the scenario meets: the one cache
  record it writes and reads back, the numbers \<open>1.5\<close> and \<open>100\<close>, the status
  \<open>RUNNING\<close>, the two log timestamps, and differences that are doubles already.
\<close>

definition example_data :: json where
  "example_data =
     JObj [(''instance_name'', JStr ''vm-1''), (''status'', JStr ''RUNNING''),
           (''current_traffic_gb'', JNum (3/2)), (''traffic_threshold_gb'', JNum 100),
           (''traffic_usage_percent'', JNum (3/2))]"

definition example_platform :: platform where
  "example_platform =
     \<lparr>JSON_parse = (\<lambda>s. if s = ''<vm-1 at 0>'' then Some (cache_record example_data 0) else None),
      JSON_stringify = (\<lambda>j. if j = cache_record example_data 0 then ''<vm-1 at 0>'' else ''<other>''),
      NumberToString = (\<lambda>n. if n = 100 then ''100'' else ''1.5''),
      ObjectToPrimitive = (\<lambda>j. Inr ''[object Object]''),
      StringToNumber = (\<lambda>s. NaN),
      double = (\<lambda>x. x),
      toLowerCase = (\<lambda>s. if s = ''RUNNING'' then ''running'' else s),
      toFixed = (\<lambda>n k. ''1.50''),
      DateToLocaleString =
        (\<lambda>v. if v = Some (JStr ''2025-08-01T10:00:00'') then Inr ''8/1/2025, 10:00:00 AM''
             else if v = Some (JStr ''2025-07-30T08:33:12'') then Inr ''7/30/2025, 8:33:12 AM''
             else Inr ''Invalid Date'')\<rparr>"

definition alpha :: server where
  "alpha = \<lparr>server_id = ''a'', server_name = ''alpha''\<rparr>"

definition beta :: server where
  "beta = \<lparr>server_id = ''b'', server_name = ''beta''\<rparr>"

definition blank :: element where
  "blank = \<lparr>textContent = ''Loading...'', className = [], width = [], items = []\<rparr>"

definition fresh_page :: world where
  "fresh_page =
     \<lparr>localStorage = [''accessToken'' \<mapsto> ''tok''], href = ''/static/index.html'',
      document = (\<lambda>i. blank), network = [], console = [], alerts = [], timers = [], clock = 0\<rparr>"

text \<open>A backend that answers every request with the same response, after 120 ms.\<close>

definition answering :: "response \<Rightarrow> env" where
  "answering r =
     \<lparr>net = (\<lambda>req. Reply r), latency = (\<lambda>req. 120), confirm = (\<lambda>q. True), dwell = (\<lambda>q. 0)\<rparr>"

definition offline :: env where
  "offline = \<lparr>net = (\<lambda>req. Failed), latency = (\<lambda>req. 0), confirm = (\<lambda>q. True), dwell = (\<lambda>q. 0)\<rparr>"

definition ok_status :: response where
  "ok_status = \<lparr>status = 200, statusText = ''OK'', json_body = Some example_data\<rparr>"

definition unauthorized :: response where
  "unauthorized =
     \<lparr>status = 401, statusText = ''Unauthorized'',
      json_body = Some (JObj [(''detail'', JStr ''Could not validate credentials'')])\<rparr>"

definition server_error :: response where
  "server_error = \<lparr>status = 500, statusText = ''Internal Server Error'', json_body = None\<rparr>"

definition status_request :: request where
  "status_request =
     \<lparr>url = ''/api/v1/servers/a/status'', http_method = ''GET'',
      headers = [(''Authorization'', ''Bearer tok'')]\<rparr>"

definition after_first_sync :: world where
  "after_first_sync =
     snd (updateDashboardForServer example_platform (answering ok_status) alpha False fresh_page)"

definition ten_seconds_later :: world where
  "ten_seconds_later = after_first_sync\<lparr>clock := 10000\<rparr>"

text \<open>A stored record that is not JSON; a page without a token; a second server with a record.\<close>

definition corrupt_page :: world where
  "corrupt_page =
     fresh_page\<lparr>localStorage := (localStorage fresh_page)(''dashboardData-a'' \<mapsto> ''{oops'')\<rparr>"

definition signed_out_page :: world where
  "signed_out_page =
     ten_seconds_later\<lparr>localStorage := (localStorage ten_seconds_later)(''accessToken'' := None)\<rparr>"

definition two_servers_page :: world where
  "two_servers_page =
     fresh_page\<lparr>localStorage :=
       (localStorage fresh_page)(''dashboardData-b'' \<mapsto> ''<vm-1 at 0>'')\<rparr>"

definition after_401 :: world where
  "after_401 =
     snd (updateDashboardForServer example_platform (answering unauthorized) alpha False
            two_servers_page)"

text \<open>The same token with other text under the key of the status record.\<close>

definition other_storage :: "string \<rightharpoonup> string" where
  "other_storage = [''accessToken'' \<mapsto> ''tok'', ''dashboardData-a'' \<mapsto> ''{oops'']"

text \<open>
  The first sync started at 0 and completed at 120; the clock is then moved to 3600050,
  which is 3599930 ms after the completion and 3600050 ms after the start.
\<close>

definition an_hour_later :: world where
  "an_hour_later = after_first_sync\<lparr>clock := 3600050\<rparr>"

text \<open>A user who declines; a user who takes two and a half seconds for every dialog.\<close>

definition declining :: env where
  "declining =
     \<lparr>net = (\<lambda>req. Reply ok_status), latency = (\<lambda>req. 120), confirm = (\<lambda>q. False),
      dwell = (\<lambda>q. 2500)\<rparr>"

definition start_request :: request where
  "start_request =
     \<lparr>url = ''/api/v1/servers/a/start'', http_method = ''POST'',
      headers = [(''Authorization'', ''Bearer tok'')]\<rparr>"

definition patient :: env where
  "patient =
     \<lparr>net = (\<lambda>req. Reply ok_status), latency = (\<lambda>req. 120), confirm = (\<lambda>q. True),
      dwell = (\<lambda>q. 2500)\<rparr>"

definition logs_request :: request where
  "logs_request =
     \<lparr>url = ''/api/v1/logs/actions?server_id=a&limit=10'', http_method = ''GET'',
      headers = [(''Authorization'', ''Bearer tok'')]\<rparr>"

text \<open>The backend's answer to the action-log request: two entries, newest first.\<close>

definition two_actions :: response where
  "two_actions =
     \<lparr>status = 200, statusText = ''OK'',
      json_body = Some (JArr
        [JObj [(''timestamp'', JStr ''2025-08-01T10:00:00''), (''action_type'', JStr ''shutdown''),
               (''reason'', JStr ''traffic threshold reached'')],
         JObj [(''timestamp'', JStr ''2025-07-30T08:33:12''), (''action_type'', JStr ''start''),
               (''reason'', JNull)]])\<rparr>"

text \<open>A fetch fails: the network is down, or the response is not a 2xx one.\<close>

fun fetch_failed :: "reply \<Rightarrow> bool" where
  "fetch_failed Failed = True"
| "fetch_failed (Reply r) = (\<not> ok r)"

section \<open>Properties\<close>

lemmas model_defs =
  fetchWithAuth_def fetch_def authorized_request_def login_page_def ok_def
  renderDashboardData_def status_class_def set_textContent_def set_className_def
  classList_add_def set_width_def set_items_def appendChild_def
  cacheKey_def read_cache_def cache_hit_def cache_record_def status_url_def no_options_def
  fetch_and_store_def show_error_def updateDashboardForServer_def
  logs_url_def log_line_def show_logs_def fetch_logs_def updateActionLogsForServer_def
  alert_def setTimeout_def action_url_def post_options_def confirm_message_def
  invoke_action_def handleVmAction_def

lemmas example_defs =
  example_data_def example_platform_def alpha_def beta_def blank_def fresh_page_def
  answering_def offline_def ok_status_def unauthorized_def server_error_def
  status_request_def declining_def patient_def start_request_def logs_request_def
  two_actions_def

lemmas world_defs =
  corrupt_page_def signed_out_page_def two_servers_page_def after_401_def
  after_first_sync_def ten_seconds_later_def an_hour_later_def

subsection \<open>What the page setters and the renderer leave alone\<close>

lemmas setter_defs = set_textContent_def set_className_def classList_add_def set_width_def
  set_items_def appendChild_def

lemma setters_localStorage [simp]:
  "localStorage (set_textContent i s w) = localStorage w"
  "localStorage (set_className i cs w) = localStorage w"
  "localStorage (classList_add i c w) = localStorage w"
  "localStorage (set_width i s w) = localStorage w"
  "localStorage (set_items i xs w) = localStorage w"
  "localStorage (appendChild i x w) = localStorage w"
  by (simp_all add: setter_defs)

lemma setters_network [simp]:
  "network (set_textContent i s w) = network w"
  "network (set_className i cs w) = network w"
  "network (classList_add i c w) = network w"
  "network (set_width i s w) = network w"
  "network (set_items i xs w) = network w"
  "network (appendChild i x w) = network w"
  by (simp_all add: setter_defs)

lemma setters_console [simp]:
  "console (set_textContent i s w) = console w"
  "console (set_className i cs w) = console w"
  "console (classList_add i c w) = console w"
  "console (set_width i s w) = console w"
  "console (set_items i xs w) = console w"
  "console (appendChild i x w) = console w"
  by (simp_all add: setter_defs)

lemma setters_href [simp]:
  "href (set_textContent i s w) = href w"
  "href (set_className i cs w) = href w"
  "href (classList_add i c w) = href w"
  "href (set_width i s w) = href w"
  "href (set_items i xs w) = href w"
  "href (appendChild i x w) = href w"
  by (simp_all add: setter_defs)

lemma render_localStorage [simp]:
  "localStorage (snd (renderDashboardData P srv d w)) = localStorage w"
  by (simp add: renderDashboardData_def Let_def split: sum.splits option.splits)

lemma render_network [simp]:
  "network (snd (renderDashboardData P srv d w)) = network w"
  by (simp add: renderDashboardData_def Let_def split: sum.splits option.splits)

lemma render_console [simp]:
  "console (snd (renderDashboardData P srv d w)) = console w"
  by (simp add: renderDashboardData_def Let_def split: sum.splits option.splits)

lemma render_href [simp]:
  "href (snd (renderDashboardData P srv d w)) = href w"
  by (simp add: renderDashboardData_def Let_def split: sum.splits option.splits)

text \<open>Whether the renderer throws depends on the data only, not on the page.\<close>

lemma render_result_world_free:
  "fst (renderDashboardData P srv d w) = fst (renderDashboardData P srv d w2)"
  by (simp add: renderDashboardData_def Let_def split: sum.splits option.splits)

lemma cacheKey_not_token [simp]:
  "cacheKey srv \<noteq> ''accessToken''" "''accessToken'' \<noteq> cacheKey srv"
  by (simp_all add: cacheKey_def)

subsection \<open>The authenticated transport\<close>

lemma fetchWithAuth_no_token:
  "localStorage w ''accessToken'' = None \<or> localStorage w ''accessToken'' = Some [] \<Longrightarrow>
   fetchWithAuth E u opts w =
     (Inl (Error ''No token found, redirecting to login.''), w\<lparr>href := login_page\<rparr>)"
  by (auto simp: fetchWithAuth_def)

lemma fetchWithAuth_token:
  assumes "localStorage w ''accessToken'' = Some tok" "tok \<noteq> []"
  shows "fetchWithAuth E u opts w =
     (let req = authorized_request u opts tok;
          w1 = w\<lparr>network := network w @ [req], clock := clock w + int (latency E req)\<rparr>
      in case net E req of
           Failed \<Rightarrow> (Inl NetworkError, w1)
         | Reply r \<Rightarrow>
             if status r = 401 then
               (Inl (Error ''Unauthorized''),
                w1\<lparr>localStorage := (localStorage w)(''accessToken'' := None), href := login_page\<rparr>)
             else (Inr r, w1))"
  using assms by (simp add: fetchWithAuth_def fetch_def Let_def split: reply.splits)

text \<open>The four ways a call of the transport can go.\<close>

lemma fetchWithAuth_cases:
  assumes "fetchWithAuth E u opts w = (res, w')"
  obtains
    (no_token) "localStorage w ''accessToken'' = None \<or> localStorage w ''accessToken'' = Some []"
      "res = Inl (Error ''No token found, redirecting to login.'')" "w' = w\<lparr>href := login_page\<rparr>"
  | (failed) tok where "localStorage w ''accessToken'' = Some tok" "tok \<noteq> []"
      "net E (authorized_request u opts tok) = Failed" "res = Inl NetworkError"
      "w' = w\<lparr>network := network w @ [authorized_request u opts tok],
              clock := clock w + int (latency E (authorized_request u opts tok))\<rparr>"
  | (unauthorized) tok r where "localStorage w ''accessToken'' = Some tok" "tok \<noteq> []"
      "net E (authorized_request u opts tok) = Reply r" "status r = 401"
      "res = Inl (Error ''Unauthorized'')"
      "w' = w\<lparr>network := network w @ [authorized_request u opts tok],
              clock := clock w + int (latency E (authorized_request u opts tok)),
              localStorage := (localStorage w)(''accessToken'' := None), href := login_page\<rparr>"
  | (response) tok r where "localStorage w ''accessToken'' = Some tok" "tok \<noteq> []"
      "net E (authorized_request u opts tok) = Reply r" "status r \<noteq> 401"
      "res = Inr r"
      "w' = w\<lparr>network := network w @ [authorized_request u opts tok],
              clock := clock w + int (latency E (authorized_request u opts tok))\<rparr>"
  using assms
  by (auto simp: fetchWithAuth_def fetch_def split: option.splits if_splits reply.splits)

text \<open>
  C3. Whenever the transport has issued its request and the network answers it with a
  response: on status 401 the stored token is removed, the location is set to the login
  page and the call fails with \<^verbatim>\<open>Error('Unauthorized')\<close>, so the response does not
  reach the caller; on any other status, success or failure, the caller gets exactly that
  response, and neither the storage nor the location changes.
\<close>

theorem fetchWithAuth_401_or_verbatim:
  assumes "fetchWithAuth E u opts w = (res, w')"
    and "network w' = network w @ [req]"
    and "net E req = Reply r"
  shows "(status r = 401 \<longrightarrow>
            res = Inl (Error ''Unauthorized'') \<and>
            localStorage w' ''accessToken'' = None \<and>
            href w' = login_page) \<and>
         (status r \<noteq> 401 \<longrightarrow>
            res = Inr r \<and> localStorage w' = localStorage w \<and> href w' = href w)"
  using assms
  by (auto simp: fetchWithAuth_def fetch_def split: option.splits if_splits reply.splits)

theorem fetchWithAuth_401_or_verbatim_witness:
  "fst (fetchWithAuth (answering unauthorized) ''/api/v1/servers/a/status'' no_options fresh_page)
     = Inl (Error ''Unauthorized'') \<and>
   localStorage (snd (fetchWithAuth (answering unauthorized) ''/api/v1/servers/a/status''
                        no_options fresh_page)) ''accessToken'' = None \<and>
   href (snd (fetchWithAuth (answering unauthorized) ''/api/v1/servers/a/status''
                no_options fresh_page)) = ''/static/login.html'' \<and>
   fst (fetchWithAuth (answering server_error) ''/api/v1/servers/a/status'' no_options fresh_page)
     = Inr server_error \<and>
   fst (fetchWithAuth (answering ok_status) ''/api/v1/servers/a/status'' no_options fresh_page)
     = Inr ok_status"
proof -
  have issued: "network (snd (fetchWithAuth (answering r) ''/api/v1/servers/a/status''
                                 no_options fresh_page))
                  = network fresh_page @ [status_request]" for r
    by (simp add: model_defs example_defs)
  have answered: "net (answering r) status_request = Reply r" for r
    by (simp add: answering_def)
  have s401: "status unauthorized = 401" and s500: "status server_error \<noteq> 401"
    and s200: "status ok_status \<noteq> 401"
    by (simp_all add: example_defs)
  note t = fetchWithAuth_401_or_verbatim [OF prod.collapse [symmetric] issued answered]
  from t [of unauthorized] t [of server_error] t [of ok_status] s401 s500 s200
  show ?thesis by (simp add: login_page_def)
qed

subsection \<open>Status synchronization and the cache\<close>

lemma fetch_and_store_success:
  assumes "fetch_and_store P E srv now w = (Inr u, w')"
  obtains tok r d where
    "localStorage w ''accessToken'' = Some tok" "tok \<noteq> []"
    "net E (authorized_request (status_url srv) no_options tok) = Reply r"
    "ok r" "json_body r = Some d"
    "fst (renderDashboardData P srv (Some d) w) = Inr ()"
    "network w' = network w @ [authorized_request (status_url srv) no_options tok]"
    "console w' = console w"
    "localStorage w' = (localStorage w)(cacheKey srv \<mapsto> JSON_stringify P (cache_record d now))"
proof -
  obtain res w1 where f: "fetchWithAuth E (status_url srv) no_options w = (res, w1)"
    by (cases "fetchWithAuth E (status_url srv) no_options w")
  from f show ?thesis
  proof (cases rule: fetchWithAuth_cases)
    case no_token
    with assms f show ?thesis by (simp add: fetch_and_store_def)
  next
    case (failed tok)
    with assms f show ?thesis by (simp add: fetch_and_store_def)
  next
    case (unauthorized tok r)
    with assms f show ?thesis by (simp add: fetch_and_store_def)
  next
    case (response tok r)
    from assms f response(5) have okr: "ok r"
      by (auto simp: fetch_and_store_def split: if_splits)
    from assms f response(5) okr obtain d where d: "json_body r = Some d"
      by (auto simp: fetch_and_store_def split: option.splits)
    obtain rr w2 where rn: "renderDashboardData P srv (Some d) w1 = (rr, w2)"
      by (cases "renderDashboardData P srv (Some d) w1")
    from assms f response(5) okr d rn have rr: "rr = Inr ()"
      and w': "w' = w2\<lparr>localStorage :=
                (localStorage w2)(cacheKey srv \<mapsto> JSON_stringify P (cache_record d now))\<rparr>"
      by (auto simp: fetch_and_store_def split: sum.splits)
    have w2: "w2 = snd (renderDashboardData P srv (Some d) w1)" using rn by simp
    have "fst (renderDashboardData P srv (Some d) w) = Inr ()"
      using rn rr render_result_world_free[of P srv "Some d" w w1] by simp
    moreover have "network w' = network w @ [authorized_request (status_url srv) no_options tok]"
      using w' w2 response(6) by simp
    moreover have "console w' = console w"
      using w' w2 response(6) by simp
    moreover have "localStorage w' =
        (localStorage w)(cacheKey srv \<mapsto> JSON_stringify P (cache_record d now))"
      using w' w2 response(6) by simp
    ultimately show ?thesis using that response(1,2,3) okr d by blast
  qed
qed

lemma fetch_and_store_failure:
  assumes "fetch_and_store P E srv now w = (Inl e, w')"
  shows "console w' = console w"
    and "localStorage w' (cacheKey srv) = localStorage w (cacheKey srv)"
proof -
  obtain res w1 where f: "fetchWithAuth E (status_url srv) no_options w = (res, w1)"
    by (cases "fetchWithAuth E (status_url srv) no_options w")
  have c1: "console w1 = console w"
    and l1: "localStorage w1 (cacheKey srv) = localStorage w (cacheKey srv)"
    using f by (cases rule: fetchWithAuth_cases; simp)+
  have "w' = w1 \<or> (\<exists>d rr. renderDashboardData P srv (Some d) w1 = (rr, w'))"
    using assms f
    by (auto simp: fetch_and_store_def split: sum.splits if_splits option.splits prod.splits)
  then have "w' = w1 \<or> (\<exists>d. w' = snd (renderDashboardData P srv (Some d) w1))"
    by (metis snd_conv)
  then show "console w' = console w"
    and "localStorage w' (cacheKey srv) = localStorage w (cacheKey srv)"
    using c1 l1 by auto
qed

lemma read_stored_record:
  assumes "localStorage w (cacheKey srv) = Some (JSON_stringify P (cache_record d t0))"
    and "JSON_parse P (JSON_stringify P (cache_record d t0)) = Some (cache_record d t0)"
  shows "read_cache P srv w = Inr (cache_record d t0)"
  using assms by (simp add: read_cache_def)

lemma cache_hit_record:
  "cache_hit P False (cache_record d t0) now = Inr (now - t0 < 3600000)"
proof -
  have "(rat_of_int now - rat_of_int t0 < 3600000) = (now - t0 < 3600000)"
    by (metis of_int_diff of_int_less_iff of_int_numeral)
  then show ?thesis
    by (simp add: cache_hit_def cache_record_def)
qed

text \<open>
  C1, as stated, fails: the record is stamped with the clock value read at line 177,
  before the request is sent, not with the time the call completes. A first sync that
  starts at 0 and completes at 120 stores the timestamp 0; a non-forced sync at
  3600050, which is 3599930 ms (less than an hour) after the completion, finds the
  record 3600050 ms old and sends a second request.
\<close>

theorem sync_within_ttl_of_completion_counterexample:
  "clock fresh_page = 0 \<and> clock after_first_sync = 120 \<and>
   network after_first_sync = [status_request] \<and>
   console after_first_sync = [] \<and>
   localStorage after_first_sync ''dashboardData-a'' = Some ''<vm-1 at 0>'' \<and>
   clock an_hour_later - clock after_first_sync < 3600000 \<and>
   localStorage an_hour_later = localStorage after_first_sync \<and>
   network (snd (updateDashboardForServer example_platform (answering ok_status) alpha False
                   an_hour_later)) = [status_request, status_request]"
  by (simp add: world_defs model_defs example_defs)

text \<open>
  C1, amended: \<open>t0\<close> is the time the first call started. Let a first status sync for a
  server start at clock \<open>t0 = clock w0\<close> and complete successfully: it issued its
  request \<open>req\<close>, the backend answered with a response whose body is \<open>data\<close>, and
  nothing was caught and logged. Let a second, non-forced sync for the same server start
  at \<open>t1 = clock w1\<close> with \<open>t1 - t0 < 3600000\<close> (one hour), in any world whose cache
  record for the key is still the one the first call left, and with any backend \<open>E1\<close>.
  Provided \<^verbatim>\<open>JSON.parse\<close> reads back the record that \<^verbatim>\<open>JSON.stringify\<close> wrote, the
  first call stored \<open>{data, timestamp: t0}\<close>, and the second call is exactly the
  rendering of that same \<open>data\<close>: it resolves and issues no request.
\<close>

theorem sync_twice_within_ttl:
  assumes first: "updateDashboardForServer P E srv force w0 = (res0, w0')"
    and fetched: "network w0' = network w0 @ [req]"
    and quiet: "console w0' = console w0"
    and reply: "net E req = Reply r" "json_body r = Some data"
    and roundtrip: "JSON_parse P (JSON_stringify P (cache_record data (clock w0)))
                      = Some (cache_record data (clock w0))"
    and kept: "localStorage w1 (cacheKey srv) = localStorage w0' (cacheKey srv)"
    and within: "clock w1 - clock w0 < 3600000"
  shows "localStorage w0' (cacheKey srv) = Some (JSON_stringify P (cache_record data (clock w0))) \<and>
         updateDashboardForServer P E1 srv False w1 = renderDashboardData P srv (Some data) w1 \<and>
         fst (updateDashboardForServer P E1 srv False w1) = Inr () \<and>
         network (snd (updateDashboardForServer P E1 srv False w1)) = network w1"
proof -
  have grow: "network w0 \<noteq> network w0 @ [req]" by simp
  obtain cd where rc: "read_cache P srv w0 = Inr cd"
    using first fetched grow
    by (cases "read_cache P srv w0") (auto simp: updateDashboardForServer_def)
  obtain hit where ch: "cache_hit P force cd (clock w0) = Inr hit"
    using first fetched grow rc
    by (cases "cache_hit P force cd (clock w0)") (auto simp: updateDashboardForServer_def)
  have miss: "\<not> hit"
  proof
    assume hit
    with first rc ch have "w0' = snd (renderDashboardData P srv (get_prop cd ''data'') w0)"
      by (simp add: updateDashboardForServer_def)
    with fetched grow show False by simp
  qed
  obtain rs ws where fs: "fetch_and_store P E srv (clock w0) w0 = (rs, ws)"
    by (cases "fetch_and_store P E srv (clock w0) w0")
  have "rs = Inr ()" and ws: "ws = w0'"
  proof -
    show "rs = Inr ()"
    proof (cases rs)
      case (Inl e)
      with first rc ch miss fs have "w0' = show_error srv e ws"
        by (simp add: updateDashboardForServer_def)
      moreover have "console ws = console w0"
        using fetch_and_store_failure(1) fs Inl by blast
      ultimately have "console w0' =
          console w0 @ [(''Error updating dashboard for '' @ server_id srv @ '':'', e)]"
        by (simp add: show_error_def)
      with quiet show ?thesis by simp
    next
      case (Inr u)
      then show ?thesis by simp
    qed
    with first rc ch miss fs show "ws = w0'"
      by (simp add: updateDashboardForServer_def)
  qed
  with fs have ok0: "fetch_and_store P E srv (clock w0) w0 = (Inr (), w0')" by simp
  from ok0 obtain tok r' d where
    t: "net E (authorized_request (status_url srv) no_options tok) = Reply r'"
      "json_body r' = Some d"
      "fst (renderDashboardData P srv (Some d) w0) = Inr ()"
      "network w0' = network w0 @ [authorized_request (status_url srv) no_options tok]"
      "localStorage w0' =
         (localStorage w0)(cacheKey srv \<mapsto> JSON_stringify P (cache_record d (clock w0)))"
    by (rule fetch_and_store_success)
  from t(4) fetched have "req = authorized_request (status_url srv) no_options tok" by simp
  with t(1,2) reply have d: "d = data" by simp
  have stored: "localStorage w0' (cacheKey srv) =
      Some (JSON_stringify P (cache_record data (clock w0)))"
    using t(5) d by simp
  have rc1: "read_cache P srv w1 = Inr (cache_record data (clock w0))"
    using read_stored_record[OF _ roundtrip] kept stored by simp
  have second: "updateDashboardForServer P E1 srv False w1 =
      renderDashboardData P srv (Some data) w1"
    using rc1 within
    by (simp add: updateDashboardForServer_def cache_hit_record) (simp add: cache_record_def)
  have "fst (renderDashboardData P srv (Some data) w1) = Inr ()"
    using t(3) d render_result_world_free[of P srv "Some data" w1 w0] by simp
  with second stored show ?thesis by simp
qed

text \<open>
  The scenario of the specification: the cache is empty, a sync at \<open>t = 0\<close> fetches the
  data of \<open>vm-1\<close>; a sync ten seconds later, with the network down, renders the same data
  and sends nothing.
\<close>

theorem sync_twice_within_ttl_witness:
  "localStorage after_first_sync ''dashboardData-a'' = Some ''<vm-1 at 0>'' \<and>
   updateDashboardForServer example_platform offline alpha False ten_seconds_later =
     renderDashboardData example_platform alpha (Some example_data) ten_seconds_later \<and>
   fst (updateDashboardForServer example_platform offline alpha False ten_seconds_later) = Inr () \<and>
   network (snd (updateDashboardForServer example_platform offline alpha False ten_seconds_later)) =
     [status_request]"
proof -
  have first: "updateDashboardForServer example_platform (answering ok_status) alpha False fresh_page
                 = (Inr (), after_first_sync)"
    by (simp add: after_first_sync_def model_defs example_defs)
  have fetched: "network after_first_sync = network fresh_page @ [status_request]"
    by (simp add: after_first_sync_def model_defs example_defs)
  have quiet: "console after_first_sync = console fresh_page"
    by (simp add: after_first_sync_def model_defs example_defs)
  have reply: "net (answering ok_status) status_request = Reply ok_status"
    "json_body ok_status = Some example_data"
    by (simp_all add: answering_def ok_status_def)
  have roundtrip: "JSON_parse example_platform
      (JSON_stringify example_platform (cache_record example_data (clock fresh_page)))
      = Some (cache_record example_data (clock fresh_page))"
    by (simp add: example_platform_def fresh_page_def)
  have kept: "localStorage ten_seconds_later (cacheKey alpha) =
      localStorage after_first_sync (cacheKey alpha)"
    by (simp add: ten_seconds_later_def)
  have within: "clock ten_seconds_later - clock fresh_page < 3600000"
    by (simp add: ten_seconds_later_def fresh_page_def)
  have k: "cacheKey alpha = ''dashboardData-a''"
    by (simp add: cacheKey_def alpha_def)
  have s: "JSON_stringify example_platform (cache_record example_data (clock fresh_page)) =
      ''<vm-1 at 0>''"
    by (simp add: example_platform_def fresh_page_def)
  have n: "network ten_seconds_later = [status_request]"
    using fetched by (simp add: ten_seconds_later_def fresh_page_def)
  note twice =
    sync_twice_within_ttl [OF first fetched quiet reply roundtrip kept within, of offline]
  from twice n show ?thesis
    unfolding k s by metis
qed

subsection \<open>When a sync reaches the network\<close>

lemma sync_fetched:
  assumes "updateDashboardForServer P E srv force w = (res, w')"
    and "network w' \<noteq> network w"
  obtains rs ws where "fetch_and_store P E srv (clock w) w = (rs, ws)"
    and "res = Inr ()"
    and "w' = (case rs of Inl e \<Rightarrow> show_error srv e ws | Inr u \<Rightarrow> ws)"
proof -
  obtain cd where rc: "read_cache P srv w = Inr cd"
    using assms by (cases "read_cache P srv w") (auto simp: updateDashboardForServer_def)
  obtain hit where ch: "cache_hit P force cd (clock w) = Inr hit"
    using assms rc
    by (cases "cache_hit P force cd (clock w)") (auto simp: updateDashboardForServer_def)
  have miss: "\<not> hit"
  proof
    assume hit
    with assms(1) rc ch have "w' = snd (renderDashboardData P srv (get_prop cd ''data'') w)"
      by (simp add: updateDashboardForServer_def)
    with assms(2) show False by simp
  qed
  obtain rs ws where fs: "fetch_and_store P E srv (clock w) w = (rs, ws)"
    by (cases "fetch_and_store P E srv (clock w) w")
  with assms(1) rc ch miss have "res = Inr ()"
    and "w' = (case rs of Inl e \<Rightarrow> show_error srv e ws | Inr u \<Rightarrow> ws)"
    by (auto simp: updateDashboardForServer_def split: sum.splits)
  with fs show ?thesis using that by blast
qed

lemma fetch_and_store_network_eq:
  "network (snd (fetch_and_store P E srv now w)) =
   network (snd (fetchWithAuth E (status_url srv) no_options w))"
  by (simp add: fetch_and_store_def split: sum.splits option.splits prod.splits)
     (metis render_network snd_conv)

lemma fetchWithAuth_network_token:
  assumes "localStorage w ''accessToken'' = Some tok" "tok \<noteq> []"
  shows "network (snd (fetchWithAuth E u opts w)) = network w @ [authorized_request u opts tok]"
  using assms by (simp add: fetchWithAuth_token Let_def split: reply.splits)

lemma fetchWithAuth_network_no_token:
  assumes "localStorage w ''accessToken'' = None \<or> localStorage w ''accessToken'' = Some []"
  shows "network (snd (fetchWithAuth E u opts w)) = network w"
  using assms by (simp add: fetchWithAuth_no_token)

lemma sync_network:
  "network (snd (updateDashboardForServer P E srv force w)) =
     (case read_cache P srv w of
        Inl e \<Rightarrow> network w
      | Inr cd \<Rightarrow>
          (case cache_hit P force cd (clock w) of
             Inl e \<Rightarrow> network w
           | Inr hit \<Rightarrow>
               if hit then network w
               else network (snd (fetchWithAuth E (status_url srv) no_options w))))"
proof -
  have "network (snd (case fetch_and_store P E srv (clock w) w of
                     (Inl e, w') \<Rightarrow> (Inr (), show_error srv e w')
                   | (Inr u, w') \<Rightarrow> (Inr (), w')))
        = network (snd (fetch_and_store P E srv (clock w) w))"
    by (simp add: show_error_def split: prod.splits sum.splits)
  then show ?thesis
    by (auto simp: updateDashboardForServer_def fetch_and_store_network_eq
        split: sum.splits bool.splits)
qed

lemma append_logs_network [simp]: "network (snd (append_logs P i xs w)) = network w"
  by (induction xs arbitrary: w) (auto split: sum.splits)

lemma append_logs_localStorage [simp]: "localStorage (snd (append_logs P i xs w)) = localStorage w"
  by (induction xs arbitrary: w) (auto split: sum.splits)

lemma fetch_logs_network_eq:
  "network (snd (fetch_logs P E srv w)) = network (snd (fetchWithAuth E (logs_url srv) no_options w))"
  by (simp add: fetch_logs_def show_logs_def Let_def split: sum.splits option.splits prod.splits)

lemma logs_network_eq:
  "network (snd (updateActionLogsForServer P E srv w)) =
   network (snd (fetchWithAuth E (logs_url srv) no_options w))"
proof -
  have "network (snd (updateActionLogsForServer P E srv w)) = network (snd (fetch_logs P E srv w))"
    by (simp add: updateActionLogsForServer_def split: prod.splits sum.splits)
  then show ?thesis by (simp add: fetch_logs_network_eq)
qed

lemma sync_no_token:
  assumes "localStorage w ''accessToken'' = None"
  shows "network (snd (updateDashboardForServer P E srv force w)) = network w"
  using assms
  by (simp add: sync_network fetchWithAuth_network_no_token split: sum.splits)

lemma sync_no_token_miss:
  assumes "localStorage w ''accessToken'' = None"
    and "read_cache P srv w = Inr cd" and "cache_hit P force cd (clock w) = Inr False"
  shows "updateDashboardForServer P E srv force w =
     (Inr (), show_error srv (Error ''No token found, redirecting to login.'') (w\<lparr>href := login_page\<rparr>))"
  using assms
  by (simp add: updateDashboardForServer_def fetch_and_store_def fetchWithAuth_no_token)

subsection \<open>Failures and a record that does not parse\<close>

text \<open>
  C4. Whenever a status sync has issued its request and the fetch fails (the network is
  down, or the response is not a 2xx one, 401 included), the call resolves, the cache
  record of the server is what it was before the call, stale data included, and the
  traffic line of the card shows \<^verbatim>\<open>Error loading data.\<close>
\<close>

theorem failed_fetch_keeps_cache:
  assumes "updateDashboardForServer P E srv force w = (res, w')"
    and "network w' = network w @ [req]"
    and "fetch_failed (net E req)"
  shows "res = Inr () \<and>
         localStorage w' (cacheKey srv) = localStorage w (cacheKey srv) \<and>
         textContent (document w' (''traffic-details-'' @ server_id srv)) = ''Error loading data.''"
proof -
  have "network w' \<noteq> network w" using assms(2) by simp
  with assms(1) obtain rs ws where fs: "fetch_and_store P E srv (clock w) w = (rs, ws)"
    and res: "res = Inr ()"
    and w': "w' = (case rs of Inl e \<Rightarrow> show_error srv e ws | Inr u \<Rightarrow> ws)"
    by (rule sync_fetched)
  have "\<exists>e. rs = Inl e"
  proof (cases rs)
    case (Inl e)
    then show ?thesis by simp
  next
    case (Inr u)
    with fs have "fetch_and_store P E srv (clock w) w = (Inr u, ws)" by simp
    then obtain tok r where
      "net E (authorized_request (status_url srv) no_options tok) = Reply r" "ok r"
      "network ws = network w @ [authorized_request (status_url srv) no_options tok]"
      by (rule fetch_and_store_success)
    moreover from w' Inr have "w' = ws" by simp
    ultimately have "net E req = Reply r" "ok r" using assms(2) by auto
    with assms(3) show ?thesis by simp
  qed
  then obtain e where e: "rs = Inl e" ..
  with w' have shown: "w' = show_error srv e ws" by simp
  from fs e have "localStorage ws (cacheKey srv) = localStorage w (cacheKey srv)"
    using fetch_and_store_failure(2) by blast
  with shown res show ?thesis
    by (simp add: show_error_def set_textContent_def)
qed

text \<open>
  A forced sync that gets a 500 while a record is cached, and a first sync with the
  network down.
\<close>

theorem failed_fetch_keeps_cache_witness:
  "localStorage (snd (updateDashboardForServer example_platform (answering server_error) alpha True
                        ten_seconds_later)) ''dashboardData-a'' = Some ''<vm-1 at 0>'' \<and>
   textContent (document (snd (updateDashboardForServer example_platform (answering server_error)
                                 alpha True ten_seconds_later)) ''traffic-details-a'')
     = ''Error loading data.'' \<and>
   localStorage (snd (updateDashboardForServer example_platform offline alpha False fresh_page))
     ''dashboardData-a'' = None \<and>
   textContent (document (snd (updateDashboardForServer example_platform offline alpha False
                                 fresh_page)) ''traffic-details-a'')
     = ''Error loading data.''"
proof -
  have f1: "network (snd (updateDashboardForServer example_platform (answering server_error) alpha True
                        ten_seconds_later)) = network ten_seconds_later @ [status_request]"
    by (simp add: world_defs model_defs example_defs)
  have r1: "fetch_failed (net (answering server_error) status_request)"
    by (simp add: example_defs ok_def)
  have f2: "network (snd (updateDashboardForServer example_platform offline alpha False fresh_page))
              = network fresh_page @ [status_request]"
    by (simp add: world_defs model_defs example_defs)
  have r2: "fetch_failed (net offline status_request)"
    by (simp add: example_defs)
  have k: "cacheKey alpha = ''dashboardData-a''" "''traffic-details-'' @ server_id alpha = ''traffic-details-a''"
    by (simp_all add: cacheKey_def alpha_def)
  have c1: "localStorage ten_seconds_later ''dashboardData-a'' = Some ''<vm-1 at 0>''"
    by (simp add: world_defs model_defs example_defs)
  have c2: "localStorage fresh_page ''dashboardData-a'' = None"
    by (simp add: fresh_page_def)
  from failed_fetch_keeps_cache [OF prod.collapse [symmetric] f1 r1]
    failed_fetch_keeps_cache [OF prod.collapse [symmetric] f2 r2]
  show ?thesis unfolding k c1 c2 by blast
qed

text \<open>
  C10. If the cache record of a server exists and is not JSON text, a sync call for that
  server, non-forced or forced, rejects with the SyntaxError of \<^verbatim>\<open>JSON.parse\<close> and leaves
  the whole world as it was: the freshness test is not reached, no request is issued and
  nothing is rendered, because line 176 is outside the \<^verbatim>\<open>try\<close> block.
\<close>

theorem corrupt_cache_record_throws:
  assumes "localStorage w (cacheKey srv) = Some s" and "JSON_parse P s = None"
  shows "updateDashboardForServer P E srv force w = (Inl SyntaxError, w)"
  using assms by (simp add: updateDashboardForServer_def read_cache_def)

theorem corrupt_cache_record_throws_witness:
  "updateDashboardForServer example_platform (answering ok_status) alpha False corrupt_page
     = (Inl SyntaxError, corrupt_page)"
proof -
  have "localStorage corrupt_page (cacheKey alpha) = Some ''{oops''"
    by (simp add: corrupt_page_def cacheKey_def alpha_def)
  moreover have "JSON_parse example_platform ''{oops'' = None"
    by (simp add: example_platform_def)
  ultimately show ?thesis by (rule corrupt_cache_record_throws)
qed

subsection \<open>Forced refresh\<close>

text \<open>
  C9, as stated, fails twice: a forced sync issues no request when the cache record is
  not JSON text (the parse throws first), and none when no token is stored (the
  transport refuses), even with a fresh record in the cache.
\<close>

theorem forced_sync_always_fetches_counterexample:
  "localStorage corrupt_page ''accessToken'' = Some ''tok'' \<and>
   localStorage corrupt_page ''dashboardData-a'' = Some ''{oops'' \<and>
   JSON_parse example_platform ''{oops'' = None \<and>
   network corrupt_page = [] \<and>
   network (snd (updateDashboardForServer example_platform (answering ok_status) alpha True
                   corrupt_page)) = [] \<and>
   localStorage signed_out_page ''accessToken'' = None \<and>
   read_cache example_platform alpha signed_out_page = Inr (cache_record example_data 0) \<and>
   cache_hit example_platform False (cache_record example_data 0) (clock signed_out_page)
     = Inr True \<and>
   network (snd (updateDashboardForServer example_platform (answering ok_status) alpha True
                   signed_out_page)) = network signed_out_page"
  by (simp add: world_defs model_defs example_defs)

text \<open>
  C9, amended. With a session token stored and a cache record that is absent or parses,
  a forced sync issues exactly one request, the GET of the server's status with the
  bearer token, whatever the record says about freshness.
\<close>

theorem forced_sync_fetches:
  assumes "localStorage w ''accessToken'' = Some tok" and "tok \<noteq> []"
    and "read_cache P srv w = Inr cd"
  shows "network (snd (updateDashboardForServer P E srv True w)) =
           network w @ [\<lparr>url = status_url srv, http_method = ''GET'',
                         headers = [(''Authorization'', ''Bearer '' @ tok)]\<rparr>]"
  using assms
  by (simp add: sync_network cache_hit_def fetchWithAuth_network_token authorized_request_def
      no_options_def)

text \<open>The record is fresh (ten seconds old), and the forced sync sends a second request.\<close>

theorem forced_sync_fetches_witness:
  "cache_hit example_platform False (cache_record example_data 0) (clock ten_seconds_later) = Inr True \<and>
   network (snd (updateDashboardForServer example_platform (answering ok_status) alpha True
                   ten_seconds_later)) = [status_request, status_request]"
proof -
  have tok: "localStorage ten_seconds_later ''accessToken'' = Some ''tok''" "''tok'' \<noteq> []"
    by (simp_all add: world_defs model_defs example_defs)
  have rc: "read_cache example_platform alpha ten_seconds_later = Inr (cache_record example_data 0)"
    by (simp add: world_defs model_defs example_defs)
  have n: "network ten_seconds_later = [status_request]"
    by (simp add: world_defs model_defs example_defs)
  have fresh: "cache_hit example_platform False (cache_record example_data 0) (clock ten_seconds_later) = Inr True"
    by (simp add: world_defs cache_hit_def cache_record_def)
  have u: "\<lparr>url = status_url alpha, http_method = ''GET'',
            headers = [(''Authorization'', ''Bearer '' @ ''tok'')]\<rparr> = status_request"
    by (simp add: status_url_def example_defs)
  from forced_sync_fetches [OF tok rc, of "answering ok_status"] fresh
  show ?thesis unfolding n u by simp
qed

subsection \<open>After a 401\<close>

text \<open>
  C2, as stated, fails: after the sync of one server got a 401, a non-forced sync of
  another server whose cache record is fresh does not fail; it renders the cached data
  and logs nothing.
\<close>

theorem after_401_sync_fails_counterexample:
  "network after_401 = [status_request] \<and>
   net (answering unauthorized) status_request = Reply unauthorized \<and>
   status unauthorized = 401 \<and>
   localStorage after_401 ''accessToken'' = None \<and>
   updateDashboardForServer example_platform offline beta False after_401 =
     renderDashboardData example_platform beta (Some example_data) after_401 \<and>
   fst (updateDashboardForServer example_platform offline beta False after_401) = Inr () \<and>
   console (snd (updateDashboardForServer example_platform offline beta False after_401))
     = console after_401 \<and>
   textContent (document (snd (updateDashboardForServer example_platform offline beta False after_401))
                  ''traffic-details-b'') = ''1.50 GB / 100 GB (1.5%)''"
  by (simp add: world_defs model_defs example_defs)

text \<open>
  C2, amended. After a status sync got a 401 the token is gone and the location is the
  login page; as long as no token is stored again, no status sync and no action-log sync
  of any server issues a request. A status sync that reaches the transport (its record
  parses and is not served from the cache) has the transport throw the no-token error,
  which the sync catches: it resolves, with the login location set, the error logged and
  the error text shown. A non-forced status sync whose record is fresh never reaches the
  transport: it is exactly the call of the renderer on the record's \<^verbatim>\<open>data\<close>, as
  before the 401, and rejects only if the renderer throws on that data.
\<close>

theorem after_401_no_network:
  assumes "updateDashboardForServer P E srv force w = (res, w1)"
    and "network w1 = network w @ [req]"
    and "net E req = Reply r" and "status r = 401"
    and "localStorage w2 ''accessToken'' = localStorage w1 ''accessToken''"
  shows "localStorage w1 ''accessToken'' = None \<and> href w1 = login_page \<and>
         network (snd (updateDashboardForServer P E2 srv2 force2 w2)) = network w2 \<and>
         network (snd (updateActionLogsForServer P E2 srv2 w2)) = network w2 \<and>
         (\<forall>cd. read_cache P srv2 w2 = Inr cd \<and> cache_hit P force2 cd (clock w2) = Inr False \<longrightarrow>
            updateDashboardForServer P E2 srv2 force2 w2 =
              (Inr (), show_error srv2 (Error ''No token found, redirecting to login.'')
                         (w2\<lparr>href := login_page\<rparr>))) \<and>
         (\<forall>cd. read_cache P srv2 w2 = Inr cd \<and> cache_hit P force2 cd (clock w2) = Inr True \<longrightarrow>
            updateDashboardForServer P E2 srv2 force2 w2 =
              renderDashboardData P srv2 (get_prop cd ''data'') w2)"
proof -
  have "network w1 \<noteq> network w" using assms(2) by simp
  with assms(1) obtain rs ws where fs: "fetch_and_store P E srv (clock w) w = (rs, ws)"
    and w1: "w1 = (case rs of Inl e \<Rightarrow> show_error srv e ws | Inr u \<Rightarrow> ws)"
    by (rule sync_fetched)
  obtain fr fw where f: "fetchWithAuth E (status_url srv) no_options w = (fr, fw)"
    by (cases "fetchWithAuth E (status_url srv) no_options w")
  have nws: "network ws = network fw"
    using fetch_and_store_network_eq [of P E srv "clock w" w] fs f by simp
  have nw1: "network w1 = network ws"
    using w1 by (simp add: show_error_def split: sum.splits)
  from f have "rs = Inl (Error ''Unauthorized'') \<and> localStorage ws ''accessToken'' = None
                \<and> href ws = login_page"
  proof (cases rule: fetchWithAuth_cases)
    case no_token
    with nws nw1 assms(2) show ?thesis by simp
  next
    case (failed tok)
    with nws nw1 assms(2,3) show ?thesis by simp
  next
    case (unauthorized tok r')
    with fs f show ?thesis by (auto simp: fetch_and_store_def)
  next
    case (response tok r')
    with nws nw1 assms(2,3,4) show ?thesis by simp
  qed
  with w1 have gone: "localStorage w1 ''accessToken'' = None" and login: "href w1 = login_page"
    by (simp_all add: show_error_def)
  from gone assms(5) have none: "localStorage w2 ''accessToken'' = None" by simp
  have "network (snd (updateActionLogsForServer P E2 srv2 w2)) = network w2"
    using none by (simp add: logs_network_eq fetchWithAuth_network_no_token)
  moreover have "updateDashboardForServer P E2 srv2 force2 w2 =
      renderDashboardData P srv2 (get_prop cd ''data'') w2"
    if "read_cache P srv2 w2 = Inr cd" "cache_hit P force2 cd (clock w2) = Inr True" for cd
    using that by (simp add: updateDashboardForServer_def)
  ultimately show ?thesis
    using gone login none by (simp add: sync_no_token sync_no_token_miss)
qed

theorem after_401_no_network_witness:
  "localStorage after_401 ''accessToken'' = None \<and> href after_401 = ''/static/login.html'' \<and>
   network (snd (updateDashboardForServer example_platform (answering ok_status) beta True after_401))
     = network after_401 \<and>
   network (snd (updateActionLogsForServer example_platform (answering ok_status) beta after_401))
     = network after_401 \<and>
   updateDashboardForServer example_platform (answering ok_status) beta True after_401 =
     (Inr (), show_error beta (Error ''No token found, redirecting to login.'')
                (after_401\<lparr>href := ''/static/login.html''\<rparr>))"
proof -
  have first: "updateDashboardForServer example_platform (answering unauthorized) alpha False
                 two_servers_page = (Inr (), after_401)"
    by (simp add: world_defs model_defs example_defs)
  have fetched: "network after_401 = network two_servers_page @ [status_request]"
    by (simp add: world_defs model_defs example_defs)
  have reply: "net (answering unauthorized) status_request = Reply unauthorized"
    "status unauthorized = 401"
    by (simp_all add: example_defs)
  have rc: "read_cache example_platform beta after_401 = Inr (cache_record example_data 0)"
    by (simp add: world_defs model_defs example_defs)
  have miss: "cache_hit example_platform True (cache_record example_data 0) (clock after_401) = Inr False"
    by (simp add: cache_hit_def)
  from after_401_no_network [OF first fetched reply refl, of "answering ok_status" beta True] rc miss
  show ?thesis by (simp add: login_page_def show_error_def)
qed

subsection \<open>Actions\<close>

text \<open>
  C5. If the user declines the confirmation, \<^verbatim>\<open>handleVmAction\<close> returns at once: the
  storage, the location, the page, the request log, the console, the alerts and the
  timers are untouched, and only the time the dialog was open has passed. So whenever a
  call of \<^verbatim>\<open>handleVmAction\<close> has issued a request, the user had confirmed.
\<close>

theorem declined_action_does_nothing:
  "(\<not> confirm E (confirm_message srv action) \<longrightarrow>
      handleVmAction P E srv action w =
        (Inr (), w\<lparr>clock := clock w + int (dwell E (confirm_message srv action))\<rparr>)) \<and>
   (network (snd (handleVmAction P E srv action w)) \<noteq> network w \<longrightarrow>
      confirm E (confirm_message srv action))"
  by (auto simp: handleVmAction_def Let_def)

theorem declined_action_does_nothing_witness:
  "handleVmAction example_platform declining alpha ''shutdown'' fresh_page =
     (Inr (), fresh_page\<lparr>clock := 2500\<rparr>) \<and>
   network (snd (handleVmAction example_platform (answering ok_status) alpha ''start'' fresh_page))
     = [start_request] \<and>
   confirm (answering ok_status) (confirm_message alpha ''start'')"
proof -
  have no: "\<not> confirm declining (confirm_message alpha ''shutdown'')"
    by (simp add: declining_def)
  have d: "clock fresh_page + int (dwell declining (confirm_message alpha ''shutdown'')) = 2500"
    by (simp add: declining_def fresh_page_def)
  have n: "network (snd (handleVmAction example_platform (answering ok_status) alpha ''start'' fresh_page))
     = [start_request]"
    by (simp add: model_defs example_defs start_request_def)
  have "network (snd (handleVmAction example_platform (answering ok_status) alpha ''start'' fresh_page))
     \<noteq> network fresh_page"
    unfolding n by (simp add: fresh_page_def)
  with no n d declined_action_does_nothing [of declining alpha "''shutdown''" example_platform fresh_page]
    declined_action_does_nothing [of "answering ok_status" alpha "''start''" example_platform fresh_page]
  show ?thesis by simp 
qed

lemma invoke_action_cases:
  assumes "invoke_action P E srv action w = (res, w')"
    and "fetchWithAuth E (action_url srv action) post_options w = (fr, fw)"
  shows "(case fr of
            Inl e \<Rightarrow> res = Inl e \<and> w' = fw
          | Inr r \<Rightarrow>
              if ok r then
                res = Inr () \<and>
                w' = setTimeout [UpdateDashboard srv True, UpdateActionLogs srv] 3000
                       (alert E (''VM '' @ action @ '' initiated for server '' @ server_name srv @ ''.'') fw)
              else timers w' = timers fw \<and> network w' = network fw)"
  using assms
  by (auto simp: invoke_action_def alert_def split: sum.splits option.splits if_splits)

text \<open>
  C6. Whenever \<^verbatim>\<open>handleVmAction\<close> has issued its request and the response is a 2xx
  one, the call adds exactly one timer. Its callback starts one forced status sync and
  one action-log sync of that server, and it is due 3000 ms after the instant
  \<^verbatim>\<open>setTimeout\<close> was called, which is after the success alert and so not before the
  response arrived (at \<open>clock w + dwell + latency\<close>).
\<close>

theorem successful_action_schedules_one_resync:
  assumes "handleVmAction P E srv action w = (res, w')"
    and "network w' = network w @ [req]"
    and "net E req = Reply r" and "ok r"
  shows "timers w' = timers w @
           [\<lparr>due = clock w' + 3000, callback = [UpdateDashboard srv True, UpdateActionLogs srv]\<rparr>] \<and>
         alerts w' = alerts w @
           [''VM '' @ action @ '' initiated for server '' @ server_name srv @ ''.''] \<and>
         clock w + int (dwell E (confirm_message srv action)) + int (latency E req) \<le> clock w'"
proof -
  let ?w0 = "w\<lparr>clock := clock w + int (dwell E (confirm_message srv action))\<rparr>"
  have yes: "confirm E (confirm_message srv action)"
    using assms(1,2) by (auto simp: handleVmAction_def Let_def split: if_splits)
  obtain ir iw where ia: "invoke_action P E srv action ?w0 = (ir, iw)"
    by (cases "invoke_action P E srv action ?w0")
  have w': "timers w' = timers iw" "network w' = network iw" "clock w' = clock iw"
    "alerts w' = alerts iw"
    using assms(1) yes ia by (auto simp: handleVmAction_def Let_def split: sum.splits)
  obtain fr fw where f: "fetchWithAuth E (action_url srv action) post_options ?w0 = (fr, fw)"
    by (cases "fetchWithAuth E (action_url srv action) post_options ?w0")
  note ic = invoke_action_cases [OF ia f]
  have not401: "status r \<noteq> 401" using assms(4) by (auto simp: ok_def)
  have niw: "network iw = network fw"
    using ic by (auto simp: setTimeout_def alert_def split: sum.splits if_splits)
  from f have "fr = Inr r \<and> timers fw = timers w \<and> alerts fw = alerts w \<and>
      clock fw = clock w + int (dwell E (confirm_message srv action)) + int (latency E req)"
  proof (cases rule: fetchWithAuth_cases)
    case no_token
    with niw w' assms(2) show ?thesis by simp
  next
    case (failed tok)
    with niw w' assms(2,3) show ?thesis by simp
  next
    case (unauthorized tok r')
    with niw w' assms(2,3) not401 show ?thesis by simp
  next
    case (response tok r')
    with niw w' assms(2,3) show ?thesis by simp
  qed
  with ic assms(4) have "timers iw = timers w @
      [\<lparr>due = clock iw + 3000, callback = [UpdateDashboard srv True, UpdateActionLogs srv]\<rparr>]"
    and "clock w + int (dwell E (confirm_message srv action)) + int (latency E req) \<le> clock iw"
    and "alerts iw = alerts w @
      [''VM '' @ action @ '' initiated for server '' @ server_name srv @ ''.'']"
    by (simp_all add: setTimeout_def alert_def)
  with w' show ?thesis by simp
qed

theorem successful_action_schedules_one_resync_witness:
  "timers (snd (handleVmAction example_platform patient alpha ''start'' fresh_page)) =
     [\<lparr>due = 8120, callback = [UpdateDashboard alpha True, UpdateActionLogs alpha]\<rparr>] \<and>
   alerts (snd (handleVmAction example_platform patient alpha ''start'' fresh_page)) =
     [''VM start initiated for server alpha.''] \<and>
   clock (snd (handleVmAction example_platform patient alpha ''start'' fresh_page)) = 5120 \<and>
   clock fresh_page + int (dwell patient (confirm_message alpha ''start''))
     + int (latency patient start_request) = 2620"
proof -
  have fetched: "network (snd (handleVmAction example_platform patient alpha ''start'' fresh_page))
                   = network fresh_page @ [start_request]"
    by (simp add: model_defs example_defs patient_def start_request_def)
  have reply: "net patient start_request = Reply ok_status" "ok ok_status"
    by (simp_all add: patient_def ok_def ok_status_def)
  have c: "clock (snd (handleVmAction example_platform patient alpha ''start'' fresh_page)) = 5120"
    by (simp add: model_defs example_defs patient_def)
  have t: "clock fresh_page + int (dwell patient (confirm_message alpha ''start''))
     + int (latency patient start_request) = 2620"
    by (simp add: fresh_page_def patient_def)
  have e: "timers fresh_page = []" "alerts fresh_page = []" "server_name alpha = ''alpha''"
    by (simp_all add: fresh_page_def alpha_def)
  from successful_action_schedules_one_resync [OF prod.collapse [symmetric] fetched reply] c t e
  show ?thesis by simp
qed

text \<open>
  C7 fails on the code for a failure response whose body is not JSON text (a plain
  \<^verbatim>\<open>500 Internal Server Error\<close>, a proxy's HTML page): \<^verbatim>\<open>await response.json()\<close>
  rejects inside the \<^verbatim>\<open>try\<close> block, the \<^verbatim>\<open>catch\<close> only writes to the console, and the
  user is shown neither the detail nor the generic message. No timer is added.
\<close>

theorem action_failure_without_json_body:
  "alerts (snd (handleVmAction example_platform (answering server_error) alpha ''start'' fresh_page))
     = [] \<and>
   console (snd (handleVmAction example_platform (answering server_error) alpha ''start'' fresh_page))
     = [(''Error during start for a:'', SyntaxError)] \<and>
   timers (snd (handleVmAction example_platform (answering server_error) alpha ''start'' fresh_page))
     = []"
  by (simp add: model_defs example_defs)

subsection \<open>Action logs\<close>

lemma fetch_logs_localStorage:
  "k \<noteq> ''accessToken'' \<Longrightarrow> localStorage (snd (fetch_logs P E srv w)) k = localStorage w k"
proof -
  assume k: "k \<noteq> ''accessToken''"
  obtain fr fw where f: "fetchWithAuth E (logs_url srv) no_options w = (fr, fw)"
    by (cases "fetchWithAuth E (logs_url srv) no_options w")
  have "localStorage fw k = localStorage w k"
    using f k by (cases rule: fetchWithAuth_cases) simp_all
  moreover have "localStorage (snd (fetch_logs P E srv w)) = localStorage fw"
    using f by (simp add: fetch_logs_def show_logs_def Let_def split: sum.splits option.splits)
  ultimately show ?thesis by simp
qed

text \<open>
  C8, as stated, fails: without a stored token an action-log sync issues no request.
\<close>

theorem logs_sync_always_fetches_counterexample:
  "localStorage signed_out_page ''accessToken'' = None \<and>
   network (snd (updateActionLogsForServer example_platform (answering ok_status) alpha
                   signed_out_page)) = network signed_out_page \<and>
   href (snd (updateActionLogsForServer example_platform (answering ok_status) alpha
                signed_out_page)) = ''/static/login.html'' \<and>
   console (snd (updateActionLogsForServer example_platform (answering ok_status) alpha
                   signed_out_page))
     = [(''Error updating action logs for a:'', Error ''No token found, redirecting to login.'')]"
  by (simp add: world_defs model_defs example_defs)

lemma append_logs_page_only:
  assumes "document w = document v"
  shows "fst (append_logs P i xs w) = fst (append_logs P i xs v) \<and>
         document (snd (append_logs P i xs w)) = document (snd (append_logs P i xs v))"
  using assms
proof (induction xs arbitrary: w v)
  case Nil
  then show ?case by simp
next
  case (Cons x xs)
  show ?case
  proof (cases "log_line P x")
    case (Inl e)
    with Cons.prems show ?thesis by simp
  next
    case (Inr t)
    have "document (appendChild i t w) = document (appendChild i t v)"
      using Cons.prems by (simp add: appendChild_def)
    from Cons.IH [OF this] Inr show ?thesis by simp
  qed
qed

lemma show_logs_page_only:
  assumes "document w = document v"
  shows "fst (show_logs P srv r w) = fst (show_logs P srv r v) \<and>
         document (snd (show_logs P srv r w)) = document (snd (show_logs P srv r v))"
proof -
  let ?i = "''action-logs-'' @ server_id srv"
  have c: "document (set_items ?i [] w) = document (set_items ?i [] v)"
    using assms by (simp add: set_items_def)
  have d: "document (set_items ?i ys (set_items ?i [] w)) =
           document (set_items ?i ys (set_items ?i [] v))" for ys
    using c by (simp add: set_items_def)
  note al = append_logs_page_only [OF c, of P ?i]
  show ?thesis
  proof (cases "ok r")
    case False
    with assms show ?thesis by (simp add: show_logs_def)
  next
    case True
    show ?thesis
    proof (cases "json_body r")
      case None
      with True assms show ?thesis by (simp add: show_logs_def)
    next
      case (Some logs)
      show ?thesis
      proof (cases "as_array logs")
        case None
        with Some True c d show ?thesis by (simp add: show_logs_def Let_def)
      next
        case arr: (Some xs)
        from al [of xs] arr Some True c d show ?thesis by (simp add: show_logs_def Let_def)
      qed
    qed
  qed
qed


lemma append_logs_console [simp]: "console (snd (append_logs P i xs w)) = console w"
  by (induction xs arbitrary: w) (auto split: sum.splits)

lemma show_logs_console [simp]: "console (snd (show_logs P srv r w)) = console w"
  by (simp add: show_logs_def Let_def split: option.splits)

lemma fetch_logs_token:
  assumes "localStorage w ''accessToken'' = Some tok" and "tok \<noteq> []"
  shows "fetch_logs P E srv w =
     (let req = authorized_request (logs_url srv) no_options tok;
          w1 = w\<lparr>network := network w @ [req], clock := clock w + int (latency E req)\<rparr>
      in case net E req of
           Failed \<Rightarrow> (Inl NetworkError, w1)
         | Reply r \<Rightarrow>
             if status r = 401 then
               (Inl (Error ''Unauthorized''),
                w1\<lparr>localStorage := (localStorage w)(''accessToken'' := None), href := login_page\<rparr>)
             else show_logs P srv r w1)"
  by (simp add: fetch_logs_def fetchWithAuth_token [OF assms] Let_def split: reply.splits)

lemma fetch_logs_storage_free:
  assumes "localStorage w ''accessToken'' = Some tok" and "tok \<noteq> []"
    and "ls ''accessToken'' = Some tok"
  shows "fst (fetch_logs P E srv (w\<lparr>localStorage := ls\<rparr>)) = fst (fetch_logs P E srv w) \<and>
         document (snd (fetch_logs P E srv (w\<lparr>localStorage := ls\<rparr>))) =
           document (snd (fetch_logs P E srv w)) \<and>
         console (snd (fetch_logs P E srv (w\<lparr>localStorage := ls\<rparr>))) =
           console (snd (fetch_logs P E srv w))"
proof -
  let ?req = "authorized_request (logs_url srv) no_options tok"
  let ?w1 = "w\<lparr>network := network w @ [?req], clock := clock w + int (latency E ?req)\<rparr>"
  let ?v1 = "w\<lparr>localStorage := ls, network := network w @ [?req],
               clock := clock w + int (latency E ?req)\<rparr>"
  have tok': "localStorage (w\<lparr>localStorage := ls\<rparr>) ''accessToken'' = Some tok"
    using assms(3) by simp
  show ?thesis
  proof (cases "net E ?req")
    case Failed
    then show ?thesis
      by (simp add: fetch_logs_token [OF assms(1,2)] fetch_logs_token [OF tok' assms(2)] Let_def)
  next
    case (Reply r)
    show ?thesis
    proof (cases "status r = 401")
      case True
      with Reply show ?thesis
        by (simp add: fetch_logs_token [OF assms(1,2)] fetch_logs_token [OF tok' assms(2)] Let_def)
    next
      case False
      have "document ?v1 = document ?w1" by simp
      from show_logs_page_only [OF this, of P srv r] Reply False show ?thesis
        by (simp add: fetch_logs_token [OF assms(1,2)] fetch_logs_token [OF tok' assms(2)] Let_def)
    qed
  qed
qed

lemma logs_sync_by_fetch_logs:
  "document (snd (updateActionLogsForServer P E srv w)) = document (snd (fetch_logs P E srv w))"
  "console (snd (updateActionLogsForServer P E srv w)) =
     (case fst (fetch_logs P E srv w) of
        Inl e \<Rightarrow> console (snd (fetch_logs P E srv w)) @
                   [(''Error updating action logs for '' @ server_id srv @ '':'', e)]
      | Inr u \<Rightarrow> console (snd (fetch_logs P E srv w)))"
  by (simp_all add: updateActionLogsForServer_def split: prod.splits sum.splits)


text \<open>
  C8, amended. With a session token stored, every action-log sync issues exactly one
  request, the GET of \<^verbatim>\<open>/api/v1/logs/actions?server_id=<id>&limit=10\<close> with the bearer
  token, and writes no storage entry other than the token (which only a 401 removes).
  The page and the console it leaves are the same whatever else the storage holds, so
  nothing shown was read from a stored record; and when the request is answered by a
  response other than a 401, the page is what lines 199 to 212 make of that response.
\<close>

theorem logs_sync_always_fetches:
  assumes "localStorage w ''accessToken'' = Some tok" and "tok \<noteq> []"
  shows "network (snd (updateActionLogsForServer P E srv w)) =
           network w @ [\<lparr>url = ''/api/v1/logs/actions?server_id='' @ server_id srv @ ''&limit=10'',
                         http_method = ''GET'',
                         headers = [(''Authorization'', ''Bearer '' @ tok)]\<rparr>] \<and>
         (\<forall>k. k \<noteq> ''accessToken'' \<longrightarrow>
            localStorage (snd (updateActionLogsForServer P E srv w)) k = localStorage w k) \<and>
         (\<forall>ls. ls ''accessToken'' = Some tok \<longrightarrow>
            document (snd (updateActionLogsForServer P E srv (w\<lparr>localStorage := ls\<rparr>))) =
              document (snd (updateActionLogsForServer P E srv w)) \<and>
            console (snd (updateActionLogsForServer P E srv (w\<lparr>localStorage := ls\<rparr>))) =
              console (snd (updateActionLogsForServer P E srv w))) \<and>
         (\<forall>r. net E \<lparr>url = ''/api/v1/logs/actions?server_id='' @ server_id srv @ ''&limit=10'',
                     http_method = ''GET'',
                     headers = [(''Authorization'', ''Bearer '' @ tok)]\<rparr> = Reply r \<and>
              status r \<noteq> 401 \<longrightarrow>
            document (snd (updateActionLogsForServer P E srv w)) =
              document (snd (show_logs P srv r w)))"
proof -
  have req: "authorized_request (logs_url srv) no_options tok =
      \<lparr>url = ''/api/v1/logs/actions?server_id='' @ server_id srv @ ''&limit=10'',
       http_method = ''GET'', headers = [(''Authorization'', ''Bearer '' @ tok)]\<rparr>"
    by (simp add: authorized_request_def logs_url_def no_options_def)
  have "localStorage (snd (updateActionLogsForServer P E srv w)) =
        localStorage (snd (fetch_logs P E srv w))"
    by (simp add: updateActionLogsForServer_def split: prod.splits sum.splits)
  then have a: "network (snd (updateActionLogsForServer P E srv w)) =
           network w @ [\<lparr>url = ''/api/v1/logs/actions?server_id='' @ server_id srv @ ''&limit=10'',
                         http_method = ''GET'',
                         headers = [(''Authorization'', ''Bearer '' @ tok)]\<rparr>] \<and>
         (\<forall>k. k \<noteq> ''accessToken'' \<longrightarrow>
            localStorage (snd (updateActionLogsForServer P E srv w)) k = localStorage w k)"
    using assms
    by (simp add: logs_network_eq fetchWithAuth_network_token fetch_logs_localStorage
        authorized_request_def logs_url_def no_options_def)
  have b: "document (snd (updateActionLogsForServer P E srv (w\<lparr>localStorage := ls\<rparr>))) =
              document (snd (updateActionLogsForServer P E srv w)) \<and>
            console (snd (updateActionLogsForServer P E srv (w\<lparr>localStorage := ls\<rparr>))) =
              console (snd (updateActionLogsForServer P E srv w))"
    if "ls ''accessToken'' = Some tok" for ls
    using fetch_logs_storage_free [of w tok ls P E srv] assms that
    by (simp add: logs_sync_by_fetch_logs split: sum.splits)
  have c: "document (snd (updateActionLogsForServer P E srv w)) =
              document (snd (show_logs P srv r w))"
    if "net E (authorized_request (logs_url srv) no_options tok) = Reply r" "status r \<noteq> 401" for r
  proof -
    let ?req = "authorized_request (logs_url srv) no_options tok"
    let ?w1 = "w\<lparr>network := network w @ [?req], clock := clock w + int (latency E ?req)\<rparr>"
    have "document ?w1 = document w" by simp
    from show_logs_page_only [OF this, of P srv r] that show ?thesis
      by (simp add: logs_sync_by_fetch_logs fetch_logs_token [OF assms] Let_def)
  qed
  from a b c show ?thesis unfolding req by blast
qed

text \<open>
  The backend answers with two entries while the storage holds the status record of the
  server: the list shows the two entries, the record is untouched, and with the record
  replaced by other text the page is the same.
\<close>

theorem logs_sync_always_fetches_witness:
  "network (snd (updateActionLogsForServer example_platform (answering two_actions) alpha
                   ten_seconds_later)) = [status_request, logs_request] \<and>
   localStorage (snd (updateActionLogsForServer example_platform (answering two_actions) alpha
                   ten_seconds_later)) ''dashboardData-a'' = Some ''<vm-1 at 0>'' \<and>
   items (document (snd (updateActionLogsForServer example_platform (answering two_actions) alpha
                           ten_seconds_later)) ''action-logs-a'')
     = [''[8/1/2025, 10:00:00 AM] shutdown: traffic threshold reached'',
        ''[7/30/2025, 8:33:12 AM] start: ''] \<and>
   document (snd (updateActionLogsForServer example_platform (answering two_actions) alpha
                    (ten_seconds_later\<lparr>localStorage := other_storage\<rparr>)))
     = document (snd (updateActionLogsForServer example_platform (answering two_actions) alpha
                        ten_seconds_later)) \<and>
   document (snd (updateActionLogsForServer example_platform (answering two_actions) alpha
                    ten_seconds_later))
     = document (snd (show_logs example_platform alpha two_actions ten_seconds_later))"
proof -
  have tok: "localStorage ten_seconds_later ''accessToken'' = Some ''tok''" "''tok'' \<noteq> []"
    by (simp_all add: world_defs model_defs example_defs)
  have n: "network ten_seconds_later = [status_request]"
    by (simp add: world_defs model_defs example_defs)
  have c: "localStorage ten_seconds_later ''dashboardData-a'' = Some ''<vm-1 at 0>''"
    by (simp add: world_defs model_defs example_defs)
  have u: "\<lparr>url = ''/api/v1/logs/actions?server_id='' @ server_id alpha @ ''&limit=10'',
            http_method = ''GET'',
            headers = [(''Authorization'', ''Bearer '' @ ''tok'')]\<rparr> = logs_request"
    by (simp add: logs_request_def alpha_def)
  have shown: "items (document (snd (updateActionLogsForServer example_platform
                  (answering two_actions) alpha ten_seconds_later)) ''action-logs-a'')
     = [''[8/1/2025, 10:00:00 AM] shutdown: traffic threshold reached'',
        ''[7/30/2025, 8:33:12 AM] start: '']"
    by (simp add: world_defs model_defs example_defs)
  have other: "other_storage ''accessToken'' = Some ''tok''"
    by (simp add: other_storage_def)
  have answered: "net (answering two_actions) logs_request = Reply two_actions"
    "status two_actions \<noteq> 401"
    by (simp_all add: answering_def two_actions_def)
  note t = logs_sync_always_fetches [OF tok, of example_platform "answering two_actions" alpha,
      unfolded n u]
  from t have "network (snd (updateActionLogsForServer example_platform (answering two_actions)
      alpha ten_seconds_later)) = [status_request, logs_request]"
    by simp
  moreover from t c have "localStorage (snd (updateActionLogsForServer example_platform
      (answering two_actions) alpha ten_seconds_later)) ''dashboardData-a'' = Some ''<vm-1 at 0>''"
    by simp
  moreover from t other have "document (snd (updateActionLogsForServer example_platform
      (answering two_actions) alpha (ten_seconds_later\<lparr>localStorage := other_storage\<rparr>)))
     = document (snd (updateActionLogsForServer example_platform (answering two_actions) alpha
                        ten_seconds_later))"
    by blast
  moreover from t answered have "document (snd (updateActionLogsForServer example_platform
      (answering two_actions) alpha ten_seconds_later))
     = document (snd (show_logs example_platform alpha two_actions ten_seconds_later))"
    by blast
  ultimately show ?thesis using shown by blast
qed

end
